theory Spec2Isabelle
  imports Complex_Main
begin

section \<open>Galaxy Racer: the data model of the canvas game component\<close>

text \<open>
  The component keeps its world in mutable references (ship, bullets, enemies, asteroids,
  powerups, timers, lastTime, input) and in React state (running, score, health, gameOver,
  autofire). The model gathers all of them in one record that every operation takes and
  returns. A JavaScript \<^verbatim>\<open>number\<close> is modelled as a real number. The fields \<^verbatim>\<open>x\<close>,
  \<^verbatim>\<open>y\<close>, \<^verbatim>\<open>r\<close>, ... of the entity interfaces carry a prefix per interface, since a record
  field is a constant of the theory.
\<close>

datatype enemy_type = Drone | Swoop | Zig

datatype kind = Shield | Rapid | Heal

text \<open>The four sounds of \<^verbatim>\<open>Synth\<close>; a call of one of them is logged, in order.\<close>

datatype sfx = Shoot | Hit | Boom | Power

record bullet =
  b_x :: real
  b_y :: real
  b_vx :: real
  b_vy :: real
  b_r :: real
  b_ttl :: real
  b_color :: string

record enemy =
  e_x :: real
  e_y :: real
  e_vx :: real
  e_vy :: real
  e_r :: real
  e_hp :: real
  e_type :: enemy_type

record asteroid =
  a_x :: real
  a_y :: real
  a_vx :: real
  a_vy :: real
  a_r :: real
  a_spin :: real
  a_angle :: real

record powerUp =
  p_x :: real
  p_y :: real
  p_vx :: real
  p_vy :: real
  p_r :: real
  p_kind :: kind
  p_ttl :: real

record ship_state =
  s_x :: real
  s_y :: real
  s_r :: real
  s_speed :: real
  s_vx :: real
  s_vy :: real
  shieldT :: real
  rapidT :: real

record input_state =
  pointerDown :: bool
  target_x :: real
  target_y :: real

record timer_state =
  t_enemy :: real
  t_asteroid :: real
  t_power :: real
  t_shoot :: real

text \<open>
  \<^verbatim>\<open>Math.random()\<close> is an infinite sequence of draws \<open>rng\<close> with a read position
  \<open>rngi\<close>; \<open>sounds\<close> is the log of the calls to the synthesizer.
\<close>

record game =
  running :: bool
  score :: real
  health :: real
  gameOver :: bool
  autofire :: bool
  ship :: ship_state
  bullets :: "bullet list"
  enemies :: "enemy list"
  asteroids :: "asteroid list"
  powerups :: "powerUp list"
  inp :: input_state
  timers :: timer_state
  lastTime :: "real option"
  rng :: "nat \<Rightarrow> real"
  rngi :: nat
  sounds :: "sfx list"

section \<open>Helpers\<close>

definition clamp :: "real \<Rightarrow> real \<Rightarrow> real \<Rightarrow> real" where
  "clamp v mn mx = max mn (min mx v)"

text \<open>One call of \<^verbatim>\<open>Math.random()\<close>: the next draw, and the state that has consumed it.\<close>

definition random :: "game \<Rightarrow> real \<times> game" where
  "random g = (rng g (rngi g), g\<lparr>rngi := rngi g + 1\<rparr>)"

text \<open>\<^verbatim>\<open>rand(min, max)\<close> is \<^verbatim>\<open>Math.random() * (max - min) + min\<close>.\<close>

definition rand :: "real \<Rightarrow> real \<Rightarrow> game \<Rightarrow> real \<times> game" where
  "rand mn mx g = (let (u, g1) = random g in (u * (mx - mn) + mn, g1))"

definition play :: "sfx \<Rightarrow> game \<Rightarrow> game" where
  "play s g = g\<lparr>sounds := sounds g @ [s]\<rparr>"

text \<open>The difficulty is recomputed from the score by an effect whenever the score changes.\<close>

definition difficulty :: "real \<Rightarrow> real" where
  "difficulty sc = min 6 (1 + sc / 400)"


definition hit :: "real \<Rightarrow> real \<Rightarrow> real \<Rightarrow> real \<Rightarrow> real \<Rightarrow> real \<Rightarrow> bool" where
  "hit x1 y1 r1 x2 y2 r2 \<longleftrightarrow> (x1 - x2)\<^sup>2 + (y1 - y2)\<^sup>2 \<le> (r1 + r2)\<^sup>2"

section \<open>Spawning\<close>

definition spawnBullet :: "real \<Rightarrow> real \<Rightarrow> real \<Rightarrow> real \<Rightarrow> real \<Rightarrow> string \<Rightarrow> game \<Rightarrow> game" where
  "spawnBullet dpr x y vx vy color g =
     g\<lparr>bullets := bullets g @
        [\<lparr>b_x = x, b_y = y, b_vx = vx, b_vy = vy, b_r = 4 * dpr, b_ttl = 2, b_color = color\<rparr>]\<rparr>"

definition enemyType :: "real \<Rightarrow> enemy_type" where
  "enemyType typePick = (if typePick < 0.5 then Drone else if typePick < 0.8 then Swoop else Zig)"

definition spawnEnemy :: "real \<Rightarrow> real \<Rightarrow> real \<Rightarrow> game \<Rightarrow> game" where
  "spawnEnemy W H dpr g =
     (let d = max 1 (difficulty (score g));
          (typePick, g1) = random g;
          ty = enemyType typePick;
          (r0, g2) = rand 12 18 g1;
          r = r0 * dpr;
          (x, g3) = rand (r + 10) (W - r - 10) g2;
          y = - r - 20;
          speedScale = 0.8 + 0.6 * d;
          (vy0, g4) = rand 80 180 g3;
          vy = vy0 * dpr * speedScale;
          (vx, g5) = (if ty = Drone then (0, g4)
                      else (let (vx0, g') = rand (-60) 60 g4 in (vx0 * dpr * (0.8 + 0.4 * d), g')));
          baseHp = (if ty = Drone then 1 else 2);
          extraHp = max 0 (of_int \<lfloor>d - 1.5\<rfloor>)
      in g5\<lparr>enemies := enemies g5 @
           [\<lparr>e_x = x, e_y = y, e_vx = vx, e_vy = vy, e_r = r, e_hp = baseHp + extraHp,
             e_type = ty\<rparr>]\<rparr>)"

definition spawnAsteroid :: "real \<Rightarrow> real \<Rightarrow> real \<Rightarrow> game \<Rightarrow> game" where
  "spawnAsteroid W H dpr g =
     (let d = max 1 (difficulty (score g));
          (r0, g1) = rand 16 34 g;
          r = r0 * dpr;
          (x, g2) = rand (r + 10) (W - r - 10) g1;
          y = - r - 30;
          speedScale = 0.7 + 0.5 * d;
          (vy0, g3) = rand 60 140 g2;
          vy = vy0 * dpr * speedScale;
          (vx0, g4) = rand (-40) 40 g3;
          vx = vx0 * dpr * (0.8 + 0.3 * d);
          (spin, g5) = rand (-2) 2 g4;
          (angle, g6) = rand 0 (pi * 2) g5
      in g6\<lparr>asteroids := asteroids g6 @
           [\<lparr>a_x = x, a_y = y, a_vx = vx, a_vy = vy, a_r = r, a_spin = spin, a_angle = angle\<rparr>]\<rparr>)"


definition pickKind :: "game \<Rightarrow> kind \<times> game" where
  "pickKind g =
     (let (u1, g1) = random g
      in if u1 < 0.4 then (Shield, g1)
         else (let (u2, g2) = random g1 in (if u2 < 0.6 then Heal else Rapid, g2)))"

definition spawnPowerUp :: "real \<Rightarrow> real \<Rightarrow> (real \<times> real) option \<Rightarrow> game \<Rightarrow> game" where
  "spawnPowerUp W dpr pos g =
     (let (k, g1) = pickKind g;
          r = 10 * dpr;
          (x, g2) = (case pos of Some p \<Rightarrow> (fst p, g1) | None \<Rightarrow> rand (r + 20) (W - r - 20) g1);
          y = (case pos of Some p \<Rightarrow> snd p | None \<Rightarrow> - r - 20);
          (vy0, g3) = rand 70 110 g2;
          vy = vy0 * dpr
      in g3\<lparr>powerups := powerups g3 @
           [\<lparr>p_x = x, p_y = y, p_vx = 0, p_vy = vy, p_r = r, p_kind = k, p_ttl = 8\<rparr>]\<rparr>)"

section \<open>Damage, powerups, restart\<close>

definition setHealth :: "(real \<Rightarrow> real) \<Rightarrow> game \<Rightarrow> game" where
  "setHealth f g = g\<lparr>health := f (health g)\<rparr>"

definition setScore :: "(real \<Rightarrow> real) \<Rightarrow> game \<Rightarrow> game" where
  "setScore f g = g\<lparr>score := f (score g)\<rparr>"

definition damage :: "real \<Rightarrow> game \<Rightarrow> game" where
  "damage dmg g =
     (if shieldT (ship g) > 0 then play Hit g
      else play Hit (setHealth (\<lambda>h. max 0 (h - dmg)) g))"

definition applyPower :: "kind \<Rightarrow> game \<Rightarrow> game" where
  "applyPower k g =
     (let g1 = (if k = Shield then g\<lparr>ship := (ship g)\<lparr>shieldT := 4\<rparr>\<rparr> else g);
          g2 = (if k = Rapid then g1\<lparr>ship := (ship g1)\<lparr>rapidT := 5\<rparr>\<rparr> else g1);
          g3 = (if k = Heal then setHealth (\<lambda>h. min 100 (h + 20)) g2 else g2)
      in play Power (setScore (\<lambda>s. s + 25) g3))"

definition initialShip :: ship_state where
  "initialShip = \<lparr>s_x = 200, s_y = 300, s_r = 14, s_speed = 420, s_vx = 0, s_vy = 0,
                   shieldT = 0, rapidT = 0\<rparr>"

definition restart :: "game \<Rightarrow> game" where
  "restart g =
     g\<lparr>score := 0, health := 100, gameOver := False, bullets := [], enemies := [],
       asteroids := [], powerups := [], ship := initialShip, running := True\<rparr>"

section \<open>The frame loop\<close>

text \<open>
  The elapsed time of a frame, in seconds, from the timestamp of the previous frame (none
  on the first frame) and the timestamp \<open>t\<close> of this one, both in milliseconds.
\<close>

definition frame_dt :: "real option \<Rightarrow> real \<Rightarrow> real" where
  "frame_dt lt t =
     (let prev = (case lt of None \<Rightarrow> t | Some p \<Rightarrow> p)
      in min 0.032 ((t - prev) / 1000))"

text \<open>\<^verbatim>\<open>Math.hypot(dx, dy) || 1\<close>: the distance, or 1 when the distance is 0.\<close>

definition hypot_or_1 :: "real \<Rightarrow> real \<Rightarrow> real" where
  "hypot_or_1 dx dy = (let h = sqrt (dx\<^sup>2 + dy\<^sup>2) in if h = 0 then 1 else h)"

text \<open>The position of the ship after the move toward the target, before it is clamped.\<close>

definition movedShip :: "real \<Rightarrow> real \<Rightarrow> game \<Rightarrow> real \<times> real" where
  "movedShip dpr dt g =
     (let shipObj = ship g;
          dx = target_x (inp g) * dpr - s_x shipObj;
          dy = target_y (inp g) * dpr - s_y shipObj;
          dist = hypot_or_1 dx dy;
          maxMove = s_speed shipObj * dt * dpr;
          step = min 1 (maxMove / dist)
      in (s_x shipObj + dx * step, s_y shipObj + dy * step))"

definition moveShip :: "real \<Rightarrow> real \<Rightarrow> real \<Rightarrow> real \<Rightarrow> game \<Rightarrow> game" where
  "moveShip W H dpr dt g =
     (let (x1, y1) = movedShip dpr dt g
      in g\<lparr>ship := (ship g)\<lparr>s_x := clamp x1 (20 * dpr) (W - 20 * dpr),
                             s_y := clamp y1 (20 * dpr) (H - 20 * dpr)\<rparr>\<rparr>)"

definition tickTimers :: "real \<Rightarrow> game \<Rightarrow> game" where
  "tickTimers dt g =
     g\<lparr>timers := \<lparr>t_enemy = t_enemy (timers g) - dt, t_asteroid = t_asteroid (timers g) - dt,
                  t_power = t_power (timers g) - dt, t_shoot = t_shoot (timers g) - dt\<rparr>\<rparr>"

definition shooting :: "real \<Rightarrow> game \<Rightarrow> game" where
  "shooting dpr g =
     (let shipObj = ship g;
          baseFireRate = (if rapidT shipObj > 0 then 0.08 else 0.18)
      in if autofire g \<and> t_shoot (timers g) \<le> 0 then
           (let g1 = spawnBullet dpr (s_x shipObj) (s_y shipObj - 14 * dpr) 0 (- 900 * dpr)
                       ''#00fff0'' g;
                g2 = (if rapidT shipObj > 0 then
                        spawnBullet dpr (s_x shipObj + 8 * dpr) (s_y shipObj - 10 * dpr)
                          (200 * dpr) (- 820 * dpr) ''#ff00e6''
                          (spawnBullet dpr (s_x shipObj - 8 * dpr) (s_y shipObj - 10 * dpr)
                             (- 200 * dpr) (- 820 * dpr) ''#ff00e6'' g1)
                      else g1);
                g3 = g2\<lparr>timers := (timers g2)\<lparr>t_shoot := baseFireRate\<rparr>\<rparr>
            in play Shoot g3)
         else g)"

text \<open>
  The next spawn interval of enemies and asteroids:
  \<^verbatim>\<open>rand(mn, mx) / Math.max(1, difficulty.current)\<close>.
\<close>

definition spawnInterval :: "real \<Rightarrow> real \<Rightarrow> game \<Rightarrow> real \<times> game" where
  "spawnInterval mn mx g =
     (let (iv, g1) = rand mn mx g in (iv / max 1 (difficulty (score g1)), g1))"

definition spawning :: "real \<Rightarrow> real \<Rightarrow> real \<Rightarrow> game \<Rightarrow> game" where
  "spawning W H dpr g =
     (let g1 = (if t_enemy (timers g) \<le> 0 then
                  (let (iv, ga) = spawnInterval 0.5 1.2 (spawnEnemy W H dpr g)
                   in ga\<lparr>timers := (timers ga)\<lparr>t_enemy := iv\<rparr>\<rparr>)
                else g);
          g2 = (if t_asteroid (timers g1) \<le> 0 then
                  (let (iv, ga) = spawnInterval 0.8 1.6 (spawnAsteroid W H dpr g1)
                   in ga\<lparr>timers := (timers ga)\<lparr>t_asteroid := iv\<rparr>\<rparr>)
                else g1)
      in if t_power (timers g2) \<le> 0 then
           (let (iv, ga) = rand 8 14 (spawnPowerUp W dpr None g2)
            in ga\<lparr>timers := (timers ga)\<lparr>t_power := iv\<rparr>\<rparr>)
         else g2)"

text \<open>
  The filter of the bullets subtracts \<open>dt\<close> from the lifetime of every bullet and keeps
  the bullets whose lifetime is still positive and that have not left the top; those
  are then moved.
\<close>

definition agedBullets :: "real \<Rightarrow> bullet list \<Rightarrow> bullet list" where
  "agedBullets dt bs =
     filter (\<lambda>b. b_ttl b > 0 \<and> b_y b + b_r b > - 20) (map (\<lambda>b. b\<lparr>b_ttl := b_ttl b - dt\<rparr>) bs)"

definition updateBullets :: "real \<Rightarrow> game \<Rightarrow> game" where
  "updateBullets dt g =
     g\<lparr>bullets := map (\<lambda>b. b\<lparr>b_x := b_x b + b_vx b * dt, b_y := b_y b + b_vy b * dt\<rparr>)
                     (agedBullets dt (bullets g))\<rparr>"

definition moveEnemy :: "real \<Rightarrow> real \<Rightarrow> enemy \<Rightarrow> enemy" where
  "moveEnemy t dt e =
     (let e1 = (if e_type e = Swoop then e\<lparr>e_vx := e_vx e + sin (t * 0.005 + e_x e * 0.01) * 3\<rparr>
                else e);
          e2 = (if e_type e1 = Zig then e1\<lparr>e_vx := sin (t * 0.004 + e_y e1 * 0.02) * 80\<rparr>
                else e1)
      in e2\<lparr>e_x := e_x e2 + e_vx e2 * dt, e_y := e_y e2 + e_vy e2 * dt\<rparr>)"

definition updateEnemies :: "real \<Rightarrow> real \<Rightarrow> real \<Rightarrow> game \<Rightarrow> game" where
  "updateEnemies t H dt g =
     g\<lparr>enemies := filter (\<lambda>e. \<not> e_y e - e_r e > H + 50) (map (moveEnemy t dt) (enemies g))\<rparr>"

definition moveAsteroid :: "real \<Rightarrow> asteroid \<Rightarrow> asteroid" where
  "moveAsteroid dt a =
     a\<lparr>a_x := a_x a + a_vx a * dt, a_y := a_y a + a_vy a * dt, a_angle := a_angle a + a_spin a * dt\<rparr>"

definition updateAsteroids :: "real \<Rightarrow> real \<Rightarrow> game \<Rightarrow> game" where
  "updateAsteroids H dt g =
     g\<lparr>asteroids := filter (\<lambda>a. \<not> a_y a - a_r a > H + 60) (map (moveAsteroid dt) (asteroids g))\<rparr>"

definition movePowerUp :: "real \<Rightarrow> powerUp \<Rightarrow> powerUp" where
  "movePowerUp dt p =
     p\<lparr>p_x := p_x p + p_vx p * dt, p_y := p_y p + p_vy p * dt, p_ttl := p_ttl p - dt\<rparr>"

definition updatePowerups :: "real \<Rightarrow> real \<Rightarrow> game \<Rightarrow> game" where
  "updatePowerups H dt g =
     g\<lparr>powerups := filter (\<lambda>p. \<not> (p_ttl p \<le> 0 \<or> p_y p - p_r p > H + 40))
                      (map (movePowerUp dt) (powerups g))\<rparr>"

definition decayEffects :: "real \<Rightarrow> game \<Rightarrow> game" where
  "decayEffects dt g =
     g\<lparr>ship := (ship g)\<lparr>shieldT := max 0 (shieldT (ship g) - dt),
                         rapidT := max 0 (rapidT (ship g) - dt)\<rparr>\<rparr>"

subsection \<open>Collisions\<close>

text \<open>The body of the loops over bullets and enemies, for one bullet and one enemy.\<close>

definition bulletEnemy :: "real \<Rightarrow> real \<Rightarrow> real \<Rightarrow> bullet \<Rightarrow> enemy \<Rightarrow> game \<Rightarrow> bullet \<times> enemy \<times> game" where
  "bulletEnemy W H dpr b e g =
     (if hit (b_x b) (b_y b) (b_r b) (e_x e) (e_y e) (e_r e) then
        (let b1 = b\<lparr>b_ttl := 0\<rparr>;
             e1 = e\<lparr>e_hp := e_hp e - 1\<rparr>
         in if e_hp e1 \<le> 0 then
              (let g1 = setScore (\<lambda>s. s + 50) g;
                   (u, g2) = random g1;
                   g3 = (if u < 0.04 then spawnPowerUp W dpr (Some (e_x e1, e_y e1)) g2 else g2);
                   g4 = play Boom g3
               in (b1, e1\<lparr>e_y := H + 100\<rparr>, g4))
            else (b1, e1, play Hit g))
      else (b, e, g))"

text \<open>The inner loop: one bullet against every enemy, in pool order.\<close>

fun bulletEnemies :: "real \<Rightarrow> real \<Rightarrow> real \<Rightarrow> bullet \<Rightarrow> enemy list \<Rightarrow> game \<Rightarrow> bullet \<times> enemy list \<times> game" where
  "bulletEnemies W H dpr b [] g = (b, [], g)"
| "bulletEnemies W H dpr b (e # es) g =
     (let (b1, e1, g1) = bulletEnemy W H dpr b e g;
          (b2, es2, g2) = bulletEnemies W H dpr b1 es g1
      in (b2, e1 # es2, g2))"

text \<open>The outer loop: every bullet, in pool order, against the enemies as the bullets before it left them.\<close>

fun bulletsEnemies :: "real \<Rightarrow> real \<Rightarrow> real \<Rightarrow> bullet list \<Rightarrow> enemy list \<Rightarrow> game \<Rightarrow> bullet list \<times> enemy list \<times> game" where
  "bulletsEnemies W H dpr [] es g = ([], es, g)"
| "bulletsEnemies W H dpr (b # bs) es g =
     (let (b1, es1, g1) = bulletEnemies W H dpr b es g;
          (bs2, es2, g2) = bulletsEnemies W H dpr bs es1 g1
      in (b1 # bs2, es2, g2))"

definition collideBullets :: "real \<Rightarrow> real \<Rightarrow> real \<Rightarrow> game \<Rightarrow> game" where
  "collideBullets W H dpr g =
     (let (bs, es, g1) = bulletsEnemies W H dpr (bullets g) (enemies g) g
      in g1\<lparr>bullets := bs, enemies := es\<rparr>)"

fun shipEnemies :: "real \<Rightarrow> enemy list \<Rightarrow> game \<Rightarrow> enemy list \<times> game" where
  "shipEnemies H [] g = ([], g)"
| "shipEnemies H (e # es) g =
     (if hit (s_x (ship g)) (s_y (ship g)) (s_r (ship g)) (e_x e) (e_y e) (e_r e) then
        (let (es1, g1) = shipEnemies H es (damage 20 g) in (e\<lparr>e_y := H + 100\<rparr> # es1, g1))
      else (let (es1, g1) = shipEnemies H es g in (e # es1, g1)))"

fun shipAsteroids :: "real \<Rightarrow> asteroid list \<Rightarrow> game \<Rightarrow> asteroid list \<times> game" where
  "shipAsteroids H [] g = ([], g)"
| "shipAsteroids H (a # as) g =
     (if hit (s_x (ship g)) (s_y (ship g)) (s_r (ship g) + 2) (a_x a) (a_y a) (a_r a) then
        (let (as1, g1) = shipAsteroids H as (damage 15 g) in (a\<lparr>a_y := H + 100\<rparr> # as1, g1))
      else (let (as1, g1) = shipAsteroids H as g in (a # as1, g1)))"

text \<open>Collecting one powerup: its effect is applied and its lifetime set to 0.\<close>

definition collect :: "powerUp \<Rightarrow> game \<Rightarrow> powerUp \<times> game" where
  "collect p g = (p\<lparr>p_ttl := 0\<rparr>, applyPower (p_kind p) g)"

fun shipPowerups :: "powerUp list \<Rightarrow> game \<Rightarrow> powerUp list \<times> game" where
  "shipPowerups [] g = ([], g)"
| "shipPowerups (p # ps) g =
     (if hit (s_x (ship g)) (s_y (ship g)) (s_r (ship g) + 4) (p_x p) (p_y p) (p_r p) then
        (let (p1, g1) = collect p g; (ps1, g2) = shipPowerups ps g1 in (p1 # ps1, g2))
      else (let (ps1, g1) = shipPowerups ps g in (p # ps1, g1)))"

definition collideShip :: "real \<Rightarrow> game \<Rightarrow> game" where
  "collideShip H g =
     (let (es, g1) = shipEnemies H (enemies g) g;
          g2 = g1\<lparr>enemies := es\<rparr>;
          (as, g3) = shipAsteroids H (asteroids g2) g2;
          g4 = g3\<lparr>asteroids := as\<rparr>;
          (ps, g5) = shipPowerups (powerups g4) g4
      in g5\<lparr>powerups := ps\<rparr>)"

subsection \<open>One frame\<close>

text \<open>
  The simulation of one frame with elapsed time \<open>dt\<close>, in the order of the loop body.
  Drawing changes nothing of the state above and is left out.
\<close>

definition simulate :: "real \<Rightarrow> real \<Rightarrow> real \<Rightarrow> real \<Rightarrow> real \<Rightarrow> game \<Rightarrow> game" where
  "simulate W H dpr t dt g =
     (let g1 = moveShip W H dpr dt g;
          g2 = tickTimers dt g1;
          g3 = shooting dpr g2;
          g4 = spawning W H dpr g3;
          g5 = updateBullets dt g4;
          g6 = updateEnemies t H dt g5;
          g7 = updateAsteroids H dt g6;
          g8 = updatePowerups H dt g7;
          g9 = decayEffects dt g8;
          g10 = collideBullets W H dpr g9
      in collideShip H g10)"

text \<open>
  One call of \<^verbatim>\<open>loop(t)\<close> on a canvas of \<open>W\<close> by \<open>H\<close> device pixels. The loop reads
  \<^verbatim>\<open>running\<close>, \<^verbatim>\<open>health\<close> and \<^verbatim>\<open>gameOver\<close> as its closure captured them at the last
  render, that is as they were when the frame began; the updates of health made during the
  frame are queued state updates.
\<close>

definition loop :: "real \<Rightarrow> real \<Rightarrow> real \<Rightarrow> real \<Rightarrow> game \<Rightarrow> game" where
  "loop W H dpr t g =
     (if \<not> running g then g\<lparr>lastTime := Some t\<rparr>
      else
        (let dt = frame_dt (lastTime g) t;
             g1 = simulate W H dpr t dt (g\<lparr>lastTime := Some t\<rparr>)
         in if health g \<le> 0 \<and> \<not> gameOver g then g1\<lparr>gameOver := True, running := False\<rparr>
            else g1))"

section \<open>Initial state\<close>

text \<open>The state of a freshly mounted component, for a given sequence of random draws.\<close>

definition initialGame :: "(nat \<Rightarrow> real) \<Rightarrow> game" where
  "initialGame rnd =
     \<lparr>running = True, score = 0, health = 100, gameOver = False, autofire = True,
      ship = initialShip, bullets = [], enemies = [], asteroids = [], powerups = [],
      inp = \<lparr>pointerDown = False, target_x = 200, target_y = 300\<rparr>,
      timers = \<lparr>t_enemy = 0, t_asteroid = 0, t_power = 5, t_shoot = 0\<rparr>,
      lastTime = None, rng = rnd, rngi = 0, sounds = []\<rparr>"

section \<open>Sequences of operations\<close>

text \<open>
  The operations that reach the health of the session: a damage of some amount, the
  collection of a powerup of some kind, a restart, and a whole frame of the loop on a
  canvas of a given size at a given timestamp.
\<close>

datatype action = Damage real | ApplyPower kind | Restart | Loop real real real real

fun act :: "action \<Rightarrow> game \<Rightarrow> game" where
  "act (Damage dmg) g = damage dmg g"
| "act (ApplyPower k) g = applyPower k g"
| "act Restart g = restart g"
| "act (Loop W H dpr t) g = loop W H dpr t g"

text \<open>The amounts of damage that occur in a sequence of operations.\<close>

fun damages :: "action list \<Rightarrow> real list" where
  "damages [] = []"
| "damages (Damage dmg # as) = dmg # damages as"
| "damages (a # as) = damages as"

fun acts :: "action list \<Rightarrow> game \<Rightarrow> game" where
  "acts [] g = g"
| "acts (a # as) g = acts as (act a g)"

section \<open>Draws on a grid\<close>



section \<open>Entries marked for removal\<close>

text \<open>
  The collisions do not take an entry out of its pool: a bullet that hits and a powerup
  that is collected get the lifetime 0, an enemy that is destroyed or rammed and an
  asteroid that is rammed are moved to \<^verbatim>\<open>H + 100\<close>, below the canvas (\<^verbatim>\<open>mark for removal\<close>).
  \<open>sweep\<close> is the state without the entries so marked: the bullets and powerups whose
  lifetime is not positive, the enemies at or below the mark whose radius is below 50 and
  the asteroids at or below the mark whose radius is below 40, none of them moving up.
\<close>

definition sweep :: "real \<Rightarrow> game \<Rightarrow> game" where
  "sweep H g =
     g\<lparr>bullets := filter (\<lambda>b. 0 < b_ttl b) (bullets g),
       enemies := filter (\<lambda>e. \<not> (H + 100 \<le> e_y e \<and> e_r e < 50 \<and> 0 \<le> e_vy e)) (enemies g),
       asteroids := filter (\<lambda>a. \<not> (H + 100 \<le> a_y a \<and> a_r a < 40 \<and> 0 \<le> a_vy a)) (asteroids g),
       powerups := filter (\<lambda>p. 0 < p_ttl p) (powerups g)\<rparr>"

text \<open>A state with further entries in front of those of its four pools.\<close>

definition prepend :: "bullet list \<Rightarrow> enemy list \<Rightarrow> asteroid list \<Rightarrow> powerUp list \<Rightarrow> game \<Rightarrow> game" where
  "prepend bs es as ps g =
     g\<lparr>bullets := bs @ bullets g, enemies := es @ enemies g, asteroids := as @ asteroids g,
       powerups := ps @ powerups g\<rparr>"

section \<open>Example states\<close>

text \<open>
  A game a little after a restart, on a canvas of 800 by 600 at pixel ratio 1, with
  autofire switched off again after one shot: the bullet, fired 0.4 seconds ago from the
  ship at (400, 494), is about to reach two drones of one hit point each, the second of
  which has caught up with the first. The last frame was at timestamp 1100.
\<close>

definition crossfire :: game where
  "crossfire =
     \<lparr>running = True, score = 0, health = 100, gameOver = False, autofire = False,
      ship = \<lparr>s_x = 400, s_y = 494, s_r = 14, s_speed = 420, s_vx = 0, s_vy = 0,
               shieldT = 0, rapidT = 0\<rparr>,
      bullets = [\<lparr>b_x = 400, b_y = 120, b_vx = 0, b_vy = - 900, b_r = 4, b_ttl = 1.6,
                   b_color = ''#00fff0''\<rparr>],
      enemies = [\<lparr>e_x = 400, e_y = 100, e_vx = 0, e_vy = 120, e_r = 12, e_hp = 1, e_type = Drone\<rparr>,
                 \<lparr>e_x = 405, e_y = 100, e_vx = 0, e_vy = 240, e_r = 12, e_hp = 1, e_type = Drone\<rparr>],
      asteroids = [], powerups = [],
      inp = \<lparr>pointerDown = False, target_x = 400, target_y = 494\<rparr>,
      timers = \<lparr>t_enemy = 0.3, t_asteroid = 0.4, t_power = 3.9, t_shoot = - 0.22\<rparr>,
      lastTime = Some 1100, rng = (\<lambda>_. 1/2), rngi = 0, sounds = []\<rparr>"

text \<open>
  A game as a frame with collisions leaves it, its last frame at timestamp 1110: a bullet
  that has hit, two drones that were destroyed, an asteroid that was rammed and a shield
  powerup that was collected, each still in its pool with its mark, beside one drone that
  is still on its way down.
\<close>

definition debris :: game where
  "debris =
     \<lparr>running = True, score = 125, health = 85, gameOver = False, autofire = False,
      ship = \<lparr>s_x = 400, s_y = 494, s_r = 14, s_speed = 420, s_vx = 0, s_vy = 0,
               shieldT = 4, rapidT = 0\<rparr>,
      bullets = [\<lparr>b_x = 400, b_y = 111, b_vx = 0, b_vy = - 900, b_r = 4, b_ttl = 0,
                   b_color = ''#00fff0''\<rparr>],
      enemies = [\<lparr>e_x = 400, e_y = 700, e_vx = 0, e_vy = 120, e_r = 12, e_hp = 0, e_type = Drone\<rparr>,
                 \<lparr>e_x = 405, e_y = 700, e_vx = 0, e_vy = 240, e_r = 12, e_hp = 0, e_type = Drone\<rparr>,
                 \<lparr>e_x = 300, e_y = 50, e_vx = 0, e_vy = 150, e_r = 15, e_hp = 1, e_type = Drone\<rparr>],
      asteroids = [\<lparr>a_x = 390, a_y = 700, a_vx = 10, a_vy = 100, a_r = 20, a_spin = 1,
                     a_angle = 1/2\<rparr>],
      powerups = [\<lparr>p_x = 410, p_y = 480, p_vx = 0, p_vy = 90, p_r = 10, p_kind = Shield,
                    p_ttl = 0\<rparr>],
      inp = \<lparr>pointerDown = False, target_x = 400, target_y = 494\<rparr>,
      timers = \<lparr>t_enemy = 0.29, t_asteroid = 0.39, t_power = 5, t_shoot = - 0.23\<rparr>,
      lastTime = Some 1110, rng = (\<lambda>_. 1/2), rngi = 2, sounds = [Boom, Boom, Hit, Power]\<rparr>"

text \<open>The overlap test of the loop over bullets and enemies.\<close>

abbreviation onEnemy :: "bullet \<Rightarrow> enemy \<Rightarrow> bool" where
  "onEnemy b e \<equiv> hit (b_x b) (b_y b) (b_r b) (e_x e) (e_y e) (e_r e)"

section \<open>Properties\<close>

subsection \<open>Health stays between 0 and 100\<close>

lemma health_random [simp]: "health (snd (random g)) = health g"
  by (simp add: random_def)

lemma health_rand [simp]: "health (snd (rand mn mx g)) = health g"
  by (simp add: rand_def random_def)

lemma health_play [simp]: "health (play s g) = health g"
  by (simp add: play_def)

lemma health_setScore [simp]: "health (setScore f g) = health g"
  by (simp add: setScore_def)

lemma health_spawnBullet [simp]: "health (spawnBullet dpr x y vx vy c g) = health g"
  by (simp add: spawnBullet_def)

lemma health_pickKind [simp]: "health (snd (pickKind g)) = health g"
  by (simp add: pickKind_def random_def)

lemma health_spawnPowerUp [simp]: "health (spawnPowerUp W dpr pos g) = health g"
  by (cases pos) (simp_all add: spawnPowerUp_def split_def Let_def)

lemma health_spawnEnemy [simp]: "health (spawnEnemy W H dpr g) = health g"
  by (simp add: spawnEnemy_def split_def Let_def)

lemma health_spawnAsteroid [simp]: "health (spawnAsteroid W H dpr g) = health g"
  by (simp add: spawnAsteroid_def split_def Let_def)

lemma health_spawnInterval [simp]: "health (snd (spawnInterval mn mx g)) = health g"
  by (simp add: spawnInterval_def split_def Let_def)

lemma health_spawning [simp]: "health (spawning W H dpr g) = health g"
  by (simp add: spawning_def split_def Let_def)

lemma health_moveShip [simp]: "health (moveShip W H dpr dt g) = health g"
  by (simp add: moveShip_def split_def Let_def)

lemma health_tickTimers [simp]: "health (tickTimers dt g) = health g"
  by (simp add: tickTimers_def)

lemma health_shooting [simp]: "health (shooting dpr g) = health g"
  by (simp add: shooting_def Let_def)

lemma health_updates [simp]:
  "health (updateBullets dt g) = health g"
  "health (updateEnemies t H dt g) = health g"
  "health (updateAsteroids H dt g) = health g"
  "health (updatePowerups H dt g) = health g"
  "health (decayEffects dt g) = health g"
  by (simp_all add: updateBullets_def updateEnemies_def updateAsteroids_def updatePowerups_def
        decayEffects_def)

lemma health_bulletEnemy [simp]: "health (snd (snd (bulletEnemy W H dpr b e g))) = health g"
  by (simp add: bulletEnemy_def split_def Let_def)

lemma health_bulletEnemies [simp]: "health (snd (snd (bulletEnemies W H dpr b es g))) = health g"
  by (induction es arbitrary: b g) (simp_all add: split_def Let_def)

lemma health_bulletsEnemies [simp]: "health (snd (snd (bulletsEnemies W H dpr bs es g))) = health g"
  by (induction bs arbitrary: es g) (simp_all add: split_def Let_def)

lemma health_collideBullets [simp]: "health (collideBullets W H dpr g) = health g"
  by (simp add: collideBullets_def split_def Let_def)

lemma health_damage:
  "0 \<le> health g \<Longrightarrow> health g \<le> 100 \<Longrightarrow> 0 \<le> dmg \<Longrightarrow>
     0 \<le> health (damage dmg g) \<and> health (damage dmg g) \<le> 100"
  by (simp add: damage_def setHealth_def)

lemma health_applyPower:
  "0 \<le> health g \<Longrightarrow> health g \<le> 100 \<Longrightarrow>
     0 \<le> health (applyPower k g) \<and> health (applyPower k g) \<le> 100"
  by (simp add: applyPower_def setHealth_def)

lemma health_shipEnemies:
  "0 \<le> health g \<Longrightarrow> health g \<le> 100 \<Longrightarrow>
     0 \<le> health (snd (shipEnemies H es g)) \<and> health (snd (shipEnemies H es g)) \<le> 100"
proof (induction es arbitrary: g)
  case Nil
  then show ?case by simp
next
  case (Cons e es)
  have d: "0 \<le> health (damage 20 g) \<and> health (damage 20 g) \<le> 100"
    using Cons.prems by (intro health_damage) simp_all
  show ?case using Cons.IH [of g] Cons.IH [of "damage 20 g"] Cons.prems d
    by (simp add: split_def Let_def)
qed

lemma health_shipAsteroids:
  "0 \<le> health g \<Longrightarrow> health g \<le> 100 \<Longrightarrow>
     0 \<le> health (snd (shipAsteroids H as g)) \<and> health (snd (shipAsteroids H as g)) \<le> 100"
proof (induction as arbitrary: g)
  case Nil
  then show ?case by simp
next
  case (Cons a as)
  have d: "0 \<le> health (damage 15 g) \<and> health (damage 15 g) \<le> 100"
    using Cons.prems by (intro health_damage) simp_all
  show ?case using Cons.IH [of g] Cons.IH [of "damage 15 g"] Cons.prems d
    by (simp add: split_def Let_def)
qed

lemma health_shipPowerups:
  "0 \<le> health g \<Longrightarrow> health g \<le> 100 \<Longrightarrow>
     0 \<le> health (snd (shipPowerups ps g)) \<and> health (snd (shipPowerups ps g)) \<le> 100"
proof (induction ps arbitrary: g)
  case Nil
  then show ?case by simp
next
  case (Cons p ps)
  have d: "0 \<le> health (applyPower (p_kind p) g) \<and> health (applyPower (p_kind p) g) \<le> 100"
    using Cons.prems by (intro health_applyPower) simp_all
  show ?case using Cons.IH [of g] Cons.IH [of "applyPower (p_kind p) g"] Cons.prems d
    by (simp add: split_def collect_def Let_def)
qed

lemma health_collideShip:
  assumes "0 \<le> health g" "health g \<le> 100"
  shows "0 \<le> health (collideShip H g) \<and> health (collideShip H g) \<le> 100"
proof -
  let ?g1 = "snd (shipEnemies H (enemies g) g)"
  let ?g2 = "?g1\<lparr>enemies := fst (shipEnemies H (enemies g) g)\<rparr>"
  let ?g3 = "snd (shipAsteroids H (asteroids ?g2) ?g2)"
  let ?g4 = "?g3\<lparr>asteroids := fst (shipAsteroids H (asteroids ?g2) ?g2)\<rparr>"
  let ?g5 = "snd (shipPowerups (powerups ?g4) ?g4)"
  have 1: "0 \<le> health ?g2 \<and> health ?g2 \<le> 100"
    using health_shipEnemies [OF assms] by simp
  then have 2: "0 \<le> health ?g4 \<and> health ?g4 \<le> 100"
    using health_shipAsteroids [of ?g2] by simp
  then have 3: "0 \<le> health ?g5 \<and> health ?g5 \<le> 100"
    using health_shipPowerups [of ?g4] by simp
  have "health (collideShip H g) = health ?g5"
    by (simp add: collideShip_def split_def Let_def)
  then show ?thesis using 3 by simp
qed

lemma health_simulate:
  assumes "0 \<le> health g" "health g \<le> 100"
  shows "0 \<le> health (simulate W H dpr t dt g) \<and> health (simulate W H dpr t dt g) \<le> 100"
  unfolding simulate_def Let_def
  by (rule health_collideShip) (simp_all add: assms)

lemma health_loop:
  assumes "0 \<le> health g" "health g \<le> 100"
  shows "0 \<le> health (loop W H dpr t g) \<and> health (loop W H dpr t g) \<le> 100"
  using health_simulate [of "g\<lparr>lastTime := Some t\<rparr>" W H dpr t "frame_dt (lastTime g) t"] assms
  by (simp add: loop_def Let_def)

lemma health_act:
  assumes "0 \<le> health g" "health g \<le> 100" "\<forall>d \<in> set (damages [a]). 0 \<le> d"
  shows "0 \<le> health (act a g) \<and> health (act a g) \<le> 100"
proof (cases a)
  case (Damage dmg)
  then show ?thesis using assms health_damage [of g dmg] by simp
next
  case (ApplyPower k)
  then show ?thesis using assms health_applyPower [of g k] by simp
next
  case Restart
  then show ?thesis by (simp add: restart_def)
next
  case (Loop W H dpr t)
  then show ?thesis using assms health_loop [of g W H dpr t] by simp
qed

lemma damages_Cons: "set (damages (a # as)) = set (damages [a]) \<union> set (damages as)"
  by (cases a) simp_all

text \<open>
  Claim C1. A damage sets health to \<open>max 0 (health - dmg)\<close>, unless the shield timer is
  positive, when it leaves health as it is; a heal powerup sets health to
  \<open>min 100 (health + 20)\<close>, the other powerups leave it as it is; a restart sets it to 100.
  So from a state whose health lies between 0 and 100, every sequence of damages of
  amounts that are not negative, collections of powerups, restarts and whole frames of the
  loop leaves health between 0 and 100. The loop itself applies only the damages 20 and 15.
\<close>

theorem health_in_range:
  "health (damage dmg g) = (if 0 < shieldT (ship g) then health g else max 0 (health g - dmg))
   \<and> health (applyPower Heal g) = min 100 (health g + 20)
   \<and> health (applyPower Shield g) = health g
   \<and> health (applyPower Rapid g) = health g
   \<and> health (restart g) = 100
   \<and> (0 \<le> health g \<and> health g \<le> 100 \<and> (\<forall>d \<in> set (damages as). 0 \<le> d) \<longrightarrow>
        0 \<le> health (acts as g) \<and> health (acts as g) \<le> 100)"
proof -
  have inv: "0 \<le> health g \<Longrightarrow> health g \<le> 100 \<Longrightarrow> \<forall>d \<in> set (damages as). 0 \<le> d \<Longrightarrow>
      0 \<le> health (acts as g) \<and> health (acts as g) \<le> 100"
  proof (induction as arbitrary: g)
    case Nil
    then show ?case by simp
  next
    case (Cons a as)
    have a: "\<forall>d \<in> set (damages [a]). 0 \<le> d" and r: "\<forall>d \<in> set (damages as). 0 \<le> d"
      using Cons.prems(3) damages_Cons [of a as] by auto
    have "0 \<le> health (act a g) \<and> health (act a g) \<le> 100"
      using Cons.prems(1,2) a by (rule health_act)
    then show ?case using Cons.IH [of "act a g"] r by simp
  qed
  have d: "health (damage dmg g)
      = (if 0 < shieldT (ship g) then health g else max 0 (health g - dmg))"
    by (simp add: damage_def setHealth_def play_def)
  have h: "health (applyPower Heal g) = min 100 (health g + 20)"
    "health (applyPower Shield g) = health g" "health (applyPower Rapid g) = health g"
    by (simp_all add: applyPower_def setHealth_def setScore_def play_def)
  have r: "health (restart g) = 100"
    by (simp add: restart_def)
  show ?thesis using inv d h r by blast
qed

theorem health_in_range_witness:
  "health ((initialGame (\<lambda>_. 1/4))\<lparr>health := 90\<rparr>) = 90
   \<and> shieldT (ship ((initialGame (\<lambda>_. 1/4))\<lparr>health := 90\<rparr>)) = 0
   \<and> health (damage 30 ((initialGame (\<lambda>_. 1/4))\<lparr>health := 90\<rparr>)) = 60
   \<and> health (applyPower Heal ((initialGame (\<lambda>_. 1/4))\<lparr>health := 90\<rparr>)) = 100
   \<and> health (applyPower Shield ((initialGame (\<lambda>_. 1/4))\<lparr>health := 90\<rparr>)) = 90
   \<and> health (restart ((initialGame (\<lambda>_. 1/4))\<lparr>health := 90\<rparr>)) = 100
   \<and> damages [Loop 800 600 1 0, Damage 30, ApplyPower Heal, Damage 200, Restart, Damage 15]
       = [30, 200, 15]
   \<and> 0 \<le> health (acts [Loop 800 600 1 0, Damage 30, ApplyPower Heal, Damage 200, Restart, Damage 15]
          ((initialGame (\<lambda>_. 1/4))\<lparr>health := 90\<rparr>))
   \<and> health (acts [Loop 800 600 1 0, Damage 30, ApplyPower Heal, Damage 200, Restart, Damage 15]
          ((initialGame (\<lambda>_. 1/4))\<lparr>health := 90\<rparr>)) \<le> 100"
  using health_in_range [of 30 "(initialGame (\<lambda>_. 1/4))\<lparr>health := 90\<rparr>"
      "[Loop 800 600 1 0, Damage 30, ApplyPower Heal, Damage 200, Restart, Damage 15]"]
  by (simp add: initialGame_def initialShip_def)

subsection \<open>Shielded damage\<close>

text \<open>
  Claim C2. While the shield timer of the ship is positive, \<open>damage\<close> changes nothing but the
  sound log, to which it adds the hit sound: health is exactly what it was, for every
  amount of damage. With a shield timer of 2 and a damage of 15, health is unchanged and
  the shield timer is still positive after the decay of one frame (\<open>dt \<le> 0.032\<close>), whether
  the decay runs after the damage or, as in the loop, before it.
\<close>

theorem damage_shielded:
  "(0 < shieldT (ship g) \<longrightarrow> damage dmg g = g\<lparr>sounds := sounds g @ [Hit]\<rparr>)
   \<and> (shieldT (ship g) = 2 \<and> dt \<le> 0.032 \<longrightarrow>
        health (decayEffects dt (damage 15 g)) = health g
        \<and> sounds (decayEffects dt (damage 15 g)) = sounds g @ [Hit]
        \<and> 0 < shieldT (ship (decayEffects dt (damage 15 g)))
        \<and> health (damage 15 (decayEffects dt g)) = health g
        \<and> 0 < shieldT (ship (damage 15 (decayEffects dt g))))"
  by (auto simp add: damage_def decayEffects_def play_def setHealth_def)

theorem damage_shielded_witness:
  "0 < shieldT (ship ((initialGame (\<lambda>_. 0))\<lparr>ship := initialShip\<lparr>shieldT := 2\<rparr>\<rparr>))
   \<and> shieldT (ship ((initialGame (\<lambda>_. 0))\<lparr>ship := initialShip\<lparr>shieldT := 2\<rparr>\<rparr>)) = 2
   \<and> (0.016 :: real) \<le> 0.032
   \<and> health (damage 15 ((initialGame (\<lambda>_. 0))\<lparr>ship := initialShip\<lparr>shieldT := 2\<rparr>\<rparr>)) = 100
   \<and> sounds (damage 15 ((initialGame (\<lambda>_. 0))\<lparr>ship := initialShip\<lparr>shieldT := 2\<rparr>\<rparr>)) = [Hit]
   \<and> health (decayEffects 0.016
        (damage 15 ((initialGame (\<lambda>_. 0))\<lparr>ship := initialShip\<lparr>shieldT := 2\<rparr>\<rparr>))) = 100
   \<and> 0 < shieldT (ship (decayEffects 0.016
        (damage 15 ((initialGame (\<lambda>_. 0))\<lparr>ship := initialShip\<lparr>shieldT := 2\<rparr>\<rparr>))))"
  using damage_shielded [of "(initialGame (\<lambda>_. 0))\<lparr>ship := initialShip\<lparr>shieldT := 2\<rparr>\<rparr>" 15 "0.016"]
  by (simp add: initialGame_def initialShip_def damage_def decayEffects_def play_def)

subsection \<open>Bullets against enemies, and entries marked for removal\<close>

text \<open>
  The parts of a frame that come before the collisions never read the pools; they only
  add entries at the end and filter. So entries in front of the pools pass through them
  on their own.
\<close>

lemma prepend_fields [simp]:
  "running (prepend bs es as ps g) = running g"
  "score (prepend bs es as ps g) = score g"
  "health (prepend bs es as ps g) = health g"
  "gameOver (prepend bs es as ps g) = gameOver g"
  "autofire (prepend bs es as ps g) = autofire g"
  "ship (prepend bs es as ps g) = ship g"
  "inp (prepend bs es as ps g) = inp g"
  "timers (prepend bs es as ps g) = timers g"
  "lastTime (prepend bs es as ps g) = lastTime g"
  "rng (prepend bs es as ps g) = rng g"
  "rngi (prepend bs es as ps g) = rngi g"
  "sounds (prepend bs es as ps g) = sounds g"
  "bullets (prepend bs es as ps g) = bs @ bullets g"
  "enemies (prepend bs es as ps g) = es @ enemies g"
  "asteroids (prepend bs es as ps g) = as @ asteroids g"
  "powerups (prepend bs es as ps g) = ps @ powerups g"
  by (simp_all add: prepend_def)

lemma prepend_random:
  "random (prepend bs es as ps g) = (fst (random g), prepend bs es as ps (snd (random g)))"
  by (simp add: random_def prepend_def)

lemma prepend_rand:
  "rand mn mx (prepend bs es as ps g) = (fst (rand mn mx g), prepend bs es as ps (snd (rand mn mx g)))"
  by (simp add: rand_def prepend_random split_def Let_def)

lemma prepend_push:
  "(prepend bs es as ps g)\<lparr>bullets := bs @ xb\<rparr> = prepend bs es as ps (g\<lparr>bullets := xb\<rparr>)"
  "(prepend bs es as ps g)\<lparr>enemies := es @ xe\<rparr> = prepend bs es as ps (g\<lparr>enemies := xe\<rparr>)"
  "(prepend bs es as ps g)\<lparr>asteroids := as @ xa\<rparr> = prepend bs es as ps (g\<lparr>asteroids := xa\<rparr>)"
  "(prepend bs es as ps g)\<lparr>powerups := ps @ xp\<rparr> = prepend bs es as ps (g\<lparr>powerups := xp\<rparr>)"
  "(prepend bs es as ps g)\<lparr>timers := tm\<rparr> = prepend bs es as ps (g\<lparr>timers := tm\<rparr>)"
  "(prepend bs es as ps g)\<lparr>ship := sh\<rparr> = prepend bs es as ps (g\<lparr>ship := sh\<rparr>)"
  by (simp_all add: prepend_def)

lemma prepend_play: "play s (prepend bs es as ps g) = prepend bs es as ps (play s g)"
  by (simp add: play_def prepend_def)

lemma prepend_spawnBullet:
  "spawnBullet dpr x y vx vy c (prepend bs es as ps g) = prepend bs es as ps (spawnBullet dpr x y vx vy c g)"
  by (simp add: spawnBullet_def prepend_push)

lemma prepend_pickKind:
  "pickKind (prepend bs es as ps g) = (fst (pickKind g), prepend bs es as ps (snd (pickKind g)))"
  by (simp add: pickKind_def prepend_random split_def Let_def)

lemma prepend_spawnPowerUp:
  "spawnPowerUp W dpr pos (prepend bs es as ps g) = prepend bs es as ps (spawnPowerUp W dpr pos g)"
  by (cases pos) (simp_all add: spawnPowerUp_def prepend_pickKind prepend_rand split_def Let_def prepend_push)

lemma prepend_spawnEnemy:
  "spawnEnemy W H dpr (prepend bs es as ps g) = prepend bs es as ps (spawnEnemy W H dpr g)"
  by (simp add: spawnEnemy_def prepend_random prepend_rand split_def Let_def prepend_push)

lemma prepend_spawnAsteroid:
  "spawnAsteroid W H dpr (prepend bs es as ps g) = prepend bs es as ps (spawnAsteroid W H dpr g)"
  by (simp add: spawnAsteroid_def prepend_rand split_def Let_def prepend_push)

lemma prepend_spawnInterval:
  "spawnInterval mn mx (prepend bs es as ps g)
     = (fst (spawnInterval mn mx g), prepend bs es as ps (snd (spawnInterval mn mx g)))"
  by (simp add: spawnInterval_def prepend_rand split_def Let_def)

lemma prepend_spawning:
  "spawning W H dpr (prepend bs es as ps g) = prepend bs es as ps (spawning W H dpr g)"
  by (simp add: spawning_def prepend_spawnEnemy prepend_spawnAsteroid prepend_spawnPowerUp
        prepend_spawnInterval prepend_rand split_def Let_def prepend_push)

lemma prepend_moveShip:
  "moveShip W H dpr dt (prepend bs es as ps g) = prepend bs es as ps (moveShip W H dpr dt g)"
  by (simp add: moveShip_def movedShip_def split_def Let_def prepend_push)

lemma prepend_tickTimers:
  "tickTimers dt (prepend bs es as ps g) = prepend bs es as ps (tickTimers dt g)"
  by (simp add: tickTimers_def prepend_push)

lemma prepend_shooting:
  "shooting dpr (prepend bs es as ps g) = prepend bs es as ps (shooting dpr g)"
  by (simp add: shooting_def Let_def prepend_spawnBullet prepend_play prepend_push)


lemma prepend_updateBullets:
  "updateBullets dt (prepend bs es as ps g)
     = prepend (map (\<lambda>b. b\<lparr>b_x := b_x b + b_vx b * dt, b_y := b_y b + b_vy b * dt\<rparr>)
                  (agedBullets dt bs)) es as ps (updateBullets dt g)"
  by (simp add: updateBullets_def agedBullets_def prepend_def)

lemma prepend_updateEnemies:
  "updateEnemies t H dt (prepend bs es as ps g)
     = prepend bs (filter (\<lambda>e. \<not> e_y e - e_r e > H + 50) (map (moveEnemy t dt) es)) as ps
         (updateEnemies t H dt g)"
  by (simp add: updateEnemies_def prepend_def)

lemma prepend_updateAsteroids:
  "updateAsteroids H dt (prepend bs es as ps g)
     = prepend bs es (filter (\<lambda>a. \<not> a_y a - a_r a > H + 60) (map (moveAsteroid dt) as)) ps
         (updateAsteroids H dt g)"
  by (simp add: updateAsteroids_def prepend_def)

lemma prepend_updatePowerups:
  "updatePowerups H dt (prepend bs es as ps g)
     = prepend bs es as (filter (\<lambda>p. \<not> (p_ttl p \<le> 0 \<or> p_y p - p_r p > H + 40))
                           (map (movePowerUp dt) ps)) (updatePowerups H dt g)"
  by (simp add: updatePowerups_def prepend_def)

text \<open>The filters of the next frame drop every entry that carries a mark.\<close>

lemma spent_bullets_dropped:
  "0 \<le> dt \<Longrightarrow> agedBullets dt (filter (\<lambda>b. 0 < b_ttl b) bs) = agedBullets dt bs"
  by (induction bs) (simp_all add: agedBullets_def)

lemma moveEnemy_y: "e_y (moveEnemy t dt e) = e_y e + e_vy e * dt \<and> e_r (moveEnemy t dt e) = e_r e"
  by (simp add: moveEnemy_def Let_def)

lemma marked_enemy_leaves:
  assumes "0 \<le> dt" "H + 100 \<le> e_y e" "e_r e < 50" "0 \<le> e_vy e"
  shows "e_y (moveEnemy t dt e) - e_r (moveEnemy t dt e) > H + 50"
proof -
  have p: "0 \<le> e_vy e * dt" using assms by simp
  show ?thesis unfolding moveEnemy_y [THEN conjunct1] moveEnemy_y [THEN conjunct2]
    using assms p by linarith
qed

lemma marked_enemies_dropped:
  "0 \<le> dt \<Longrightarrow>
   filter (\<lambda>e. \<not> e_y e - e_r e > H + 50)
     (map (moveEnemy t dt) (filter (\<lambda>e. \<not> (H + 100 \<le> e_y e \<and> e_r e < 50 \<and> 0 \<le> e_vy e)) es))
   = filter (\<lambda>e. \<not> e_y e - e_r e > H + 50) (map (moveEnemy t dt) es)"
proof (induction es)
  case Nil
  then show ?case by simp
next
  case (Cons e es)
  show ?case
  proof (cases "H + 100 \<le> e_y e \<and> e_r e < 50 \<and> 0 \<le> e_vy e")
    case True
    then have "e_y (moveEnemy t dt e) - e_r (moveEnemy t dt e) > H + 50"
      using Cons.prems by (intro marked_enemy_leaves) simp_all
    then show ?thesis using True Cons by simp
  next
    case False
    then show ?thesis using Cons by simp
  qed
qed

lemma marked_asteroid_leaves:
  assumes "0 \<le> dt" "H + 100 \<le> a_y a" "a_r a < 40" "0 \<le> a_vy a"
  shows "a_y (moveAsteroid dt a) - a_r (moveAsteroid dt a) > H + 60"
proof -
  have p: "0 \<le> a_vy a * dt" using assms by simp
  have m: "a_y (moveAsteroid dt a) = a_y a + a_vy a * dt" "a_r (moveAsteroid dt a) = a_r a"
    by (simp_all add: moveAsteroid_def)
  show ?thesis unfolding m using assms p by linarith
qed

lemma marked_asteroids_dropped:
  "0 \<le> dt \<Longrightarrow>
   filter (\<lambda>a. \<not> a_y a - a_r a > H + 60)
     (map (moveAsteroid dt) (filter (\<lambda>a. \<not> (H + 100 \<le> a_y a \<and> a_r a < 40 \<and> 0 \<le> a_vy a)) as))
   = filter (\<lambda>a. \<not> a_y a - a_r a > H + 60) (map (moveAsteroid dt) as)"
proof (induction as)
  case Nil
  then show ?case by simp
next
  case (Cons a as)
  show ?case
  proof (cases "H + 100 \<le> a_y a \<and> a_r a < 40 \<and> 0 \<le> a_vy a")
    case True
    then have "a_y (moveAsteroid dt a) - a_r (moveAsteroid dt a) > H + 60"
      using Cons.prems by (intro marked_asteroid_leaves) simp_all
    then show ?thesis using True Cons by simp
  next
    case False
    then show ?thesis using Cons by simp
  qed
qed

lemma collected_powerups_dropped:
  "0 \<le> dt \<Longrightarrow>
   filter (\<lambda>p. \<not> (p_ttl p \<le> 0 \<or> p_y p - p_r p > H + 40))
     (map (movePowerUp dt) (filter (\<lambda>p. 0 < p_ttl p) ps))
   = filter (\<lambda>p. \<not> (p_ttl p \<le> 0 \<or> p_y p - p_r p > H + 40)) (map (movePowerUp dt) ps)"
  by (induction ps) (simp_all add: movePowerUp_def)

lemma prepend_own_pools:
  "prepend (bullets g) (enemies g) (asteroids g) (powerups g)
     (g\<lparr>bullets := [], enemies := [], asteroids := [], powerups := []\<rparr>) = g"
  by (simp add: prepend_def)

lemma sweep_prepend:
  "sweep H g =
     prepend (filter (\<lambda>b. 0 < b_ttl b) (bullets g))
       (filter (\<lambda>e. \<not> (H + 100 \<le> e_y e \<and> e_r e < 50 \<and> 0 \<le> e_vy e)) (enemies g))
       (filter (\<lambda>a. \<not> (H + 100 \<le> a_y a \<and> a_r a < 40 \<and> 0 \<le> a_vy a)) (asteroids g))
       (filter (\<lambda>p. 0 < p_ttl p) (powerups g))
       (g\<lparr>bullets := [], enemies := [], asteroids := [], powerups := []\<rparr>)"
  by (simp add: sweep_def prepend_def)

lemma advance_prepend:
  "updatePowerups H dt (updateAsteroids H dt (updateEnemies t H dt (updateBullets dt
     (spawning W H dpr (shooting dpr (tickTimers dt (moveShip W H dpr dt
        (prepend bs es as ps g))))))))
   = prepend (map (\<lambda>b. b\<lparr>b_x := b_x b + b_vx b * dt, b_y := b_y b + b_vy b * dt\<rparr>)
                (agedBullets dt bs))
       (filter (\<lambda>e. \<not> e_y e - e_r e > H + 50) (map (moveEnemy t dt) es))
       (filter (\<lambda>a. \<not> a_y a - a_r a > H + 60) (map (moveAsteroid dt) as))
       (filter (\<lambda>p. \<not> (p_ttl p \<le> 0 \<or> p_y p - p_r p > H + 40)) (map (movePowerUp dt) ps))
       (updatePowerups H dt (updateAsteroids H dt (updateEnemies t H dt (updateBullets dt
          (spawning W H dpr (shooting dpr (tickTimers dt (moveShip W H dpr dt g))))))))"
  by (simp only: prepend_moveShip prepend_tickTimers prepend_shooting prepend_spawning
        prepend_updateBullets prepend_updateEnemies prepend_updateAsteroids prepend_updatePowerups)

lemma advance_sweep:
  assumes "0 \<le> dt"
  shows "updatePowerups H dt (updateAsteroids H dt (updateEnemies t H dt (updateBullets dt
     (spawning W H dpr (shooting dpr (tickTimers dt (moveShip W H dpr dt (sweep H g))))))))
   = updatePowerups H dt (updateAsteroids H dt (updateEnemies t H dt (updateBullets dt
     (spawning W H dpr (shooting dpr (tickTimers dt (moveShip W H dpr dt g)))))))"
proof -
  let ?g0 = "g\<lparr>bullets := [], enemies := [], asteroids := [], powerups := []\<rparr>"
  have "updatePowerups H dt (updateAsteroids H dt (updateEnemies t H dt (updateBullets dt
     (spawning W H dpr (shooting dpr (tickTimers dt (moveShip W H dpr dt (sweep H g))))))))
    = updatePowerups H dt (updateAsteroids H dt (updateEnemies t H dt (updateBullets dt
     (spawning W H dpr (shooting dpr (tickTimers dt (moveShip W H dpr dt
       (prepend (bullets g) (enemies g) (asteroids g) (powerups g) ?g0))))))))"
    unfolding sweep_prepend advance_prepend
    by (simp only: spent_bullets_dropped [OF assms] marked_enemies_dropped [OF assms]
          marked_asteroids_dropped [OF assms] collected_powerups_dropped [OF assms])
  then show ?thesis by (simp only: prepend_own_pools)
qed

lemma simulate_sweep:
  "0 \<le> dt \<Longrightarrow> simulate W H dpr t dt (sweep H g) = simulate W H dpr t dt g"
  by (simp only: simulate_def Let_def advance_sweep)

lemma sweep_lastTime: "(sweep H g)\<lparr>lastTime := lt\<rparr> = sweep H (g\<lparr>lastTime := lt\<rparr>)"
  by (simp add: sweep_def)

lemma loop_sweep:
  assumes "running g" "0 \<le> frame_dt (lastTime g) t"
  shows "loop W H dpr t (sweep H g) = loop W H dpr t g"
proof -
  have f: "running (sweep H g) = running g" "lastTime (sweep H g) = lastTime g"
    "health (sweep H g) = health g" "gameOver (sweep H g) = gameOver g"
    by (simp_all add: sweep_def)
  show ?thesis
    using assms(1)
    by (simp only: loop_def Let_def f sweep_lastTime simulate_sweep [OF assms(2)] simp_thms if_False)
qed

lemma marked_out_of_reach:
  "H + 100 \<le> y2 \<Longrightarrow> y1 \<le> H \<Longrightarrow> \<bar>r1 + r2\<bar> < 100 \<Longrightarrow> \<not> hit x1 y1 r1 x2 y2 r2"
proof -
  assume a: "H + 100 \<le> y2" "y1 \<le> H" "\<bar>r1 + r2\<bar> < 100"
  have "\<bar>r1 + r2\<bar> < \<bar>y1 - y2\<bar>" using a by simp
  then have "\<bar>r1 + r2\<bar>\<^sup>2 < \<bar>y1 - y2\<bar>\<^sup>2" by (intro power_strict_mono) simp_all
  then have "(r1 + r2)\<^sup>2 < (y1 - y2)\<^sup>2" by (simp only: power2_abs)
  moreover have "0 \<le> (x1 - x2)\<^sup>2" by simp
  ultimately have "(r1 + r2)\<^sup>2 < (x1 - x2)\<^sup>2 + (y1 - y2)\<^sup>2" by linarith
  then show ?thesis unfolding hit_def by linarith
qed


text \<open>The marks that the collisions set.\<close>

lemma ship_damage: "ship (damage dmg g) = ship g"
  by (simp add: damage_def play_def setHealth_def)

lemma ship_applyPower:
  "s_x (ship (applyPower k g)) = s_x (ship g) \<and> s_y (ship (applyPower k g)) = s_y (ship g)
   \<and> s_r (ship (applyPower k g)) = s_r (ship g)"
  by (simp add: applyPower_def play_def setHealth_def setScore_def)

lemma fst_shipEnemies:
  "fst (shipEnemies H es g)
     = map (\<lambda>e. if hit (s_x (ship g)) (s_y (ship g)) (s_r (ship g)) (e_x e) (e_y e) (e_r e)
                 then e\<lparr>e_y := H + 100\<rparr> else e) es"
  by (induction es arbitrary: g) (simp_all add: split_def Let_def ship_damage)

lemma fst_shipAsteroids:
  "fst (shipAsteroids H as g)
     = map (\<lambda>a. if hit (s_x (ship g)) (s_y (ship g)) (s_r (ship g) + 2) (a_x a) (a_y a) (a_r a)
                 then a\<lparr>a_y := H + 100\<rparr> else a) as"
  by (induction as arbitrary: g) (simp_all add: split_def Let_def ship_damage)

lemma fst_shipPowerups:
  "fst (shipPowerups ps g)
     = map (\<lambda>p. if hit (s_x (ship g)) (s_y (ship g)) (s_r (ship g) + 4) (p_x p) (p_y p) (p_r p)
                 then p\<lparr>p_ttl := 0\<rparr> else p) ps"
  by (induction ps arbitrary: g) (simp_all add: split_def Let_def collect_def ship_applyPower)

lemma y_bulletEnemy:
  "e_y (fst (snd (bulletEnemy W H dpr b e g)))
     = (if onEnemy b e \<and> e_hp e - 1 \<le> 0 then H + 100 else e_y e)"
  by (simp add: bulletEnemy_def Let_def split_def)

lemma fst_bulletEnemy:
  "fst (bulletEnemy W H dpr b e g) = (if onEnemy b e then b\<lparr>b_ttl := 0\<rparr> else b)"
  by (simp add: bulletEnemy_def Let_def split_def)

lemma hp_bulletEnemy:
  "e_hp (fst (snd (bulletEnemy W H dpr b e g))) = e_hp e - (if onEnemy b e then 1 else 0)"
  by (simp add: bulletEnemy_def Let_def split_def)

lemma fst_bulletEnemies:
  "fst (bulletEnemies W H dpr b es g) = (if \<exists>e \<in> set es. onEnemy b e then b\<lparr>b_ttl := 0\<rparr> else b)"
proof (induction es arbitrary: b g)
  case Nil
  then show ?case by simp
next
  case (Cons e es)
  show ?case
    by (simp add: split_def Let_def Cons.IH fst_bulletEnemy)
qed

lemma hp_bulletEnemies:
  "map e_hp (fst (snd (bulletEnemies W H dpr b es g)))
     = map (\<lambda>e. e_hp e - (if onEnemy b e then 1 else 0)) es"
proof (induction es arbitrary: b g)
  case Nil
  then show ?case by simp
next
  case (Cons e es)
  show ?case
    by (simp add: split_def Let_def Cons.IH fst_bulletEnemy hp_bulletEnemy)
qed

text \<open>
  Claim C3, as amended. Within one simulation step a bullet is not taken out of the
  collision pass by its first hit: it is tested against every enemy of the pool, a hit sets
  its lifetime to 0, and every enemy it overlaps loses exactly one hit point, the others
  none; an enemy whose hit points reach 0 is moved to \<open>H + 100\<close>. The ship marks every
  enemy and asteroid it overlaps by moving it to \<open>H + 100\<close> and every powerup it overlaps by
  the lifetime 0. An entry so marked is removed once, by the filter of its pool in the
  next step, and takes no part in that step: for every \<open>dt \<ge> 0\<close> the simulation, and so the
  running loop, gives the same state as it gives without the bullets and powerups of
  lifetime 0, the marked enemies of radius below 50 and the marked asteroids of radius
  below 40, on a canvas of the same height. Nor can anything at or above the lower edge of
  the canvas overlap an entry at or below the mark, while the radii add up to less than
  100, which covers the larger asteroids and the rest of the step in which the mark is set.
\<close>

theorem bullet_pass_and_marks:
  "fst (bulletEnemies W H dpr b es g) = (if \<exists>e \<in> set es. onEnemy b e then b\<lparr>b_ttl := 0\<rparr> else b)
   \<and> map e_hp (fst (snd (bulletEnemies W H dpr b es g)))
       = map (\<lambda>e. e_hp e - (if onEnemy b e then 1 else 0)) es
   \<and> e_y (fst (snd (bulletEnemy W H dpr b e g)))
       = (if onEnemy b e \<and> e_hp e - 1 \<le> 0 then H + 100 else e_y e)
   \<and> fst (shipEnemies H es g)
       = map (\<lambda>e. if hit (s_x (ship g)) (s_y (ship g)) (s_r (ship g)) (e_x e) (e_y e) (e_r e)
                   then e\<lparr>e_y := H + 100\<rparr> else e) es
   \<and> fst (shipAsteroids H as g)
       = map (\<lambda>a. if hit (s_x (ship g)) (s_y (ship g)) (s_r (ship g) + 2) (a_x a) (a_y a) (a_r a)
                   then a\<lparr>a_y := H + 100\<rparr> else a) as
   \<and> fst (shipPowerups ps g)
       = map (\<lambda>p. if hit (s_x (ship g)) (s_y (ship g)) (s_r (ship g) + 4) (p_x p) (p_y p) (p_r p)
                   then p\<lparr>p_ttl := 0\<rparr> else p) ps
   \<and> (0 \<le> dt \<longrightarrow> simulate W H dpr t dt (sweep H g) = simulate W H dpr t dt g)
   \<and> (running g \<and> 0 \<le> frame_dt (lastTime g) t \<longrightarrow>
        loop W H dpr t (sweep H g) = loop W H dpr t g)
   \<and> (H + 100 \<le> y2 \<and> y1 \<le> H \<and> \<bar>r1 + r2\<bar> < 100 \<longrightarrow> \<not> hit x1 y1 r1 x2 y2 r2)"
proof (intro conjI impI)
  show "fst (bulletEnemies W H dpr b es g)
      = (if \<exists>e \<in> set es. onEnemy b e then b\<lparr>b_ttl := 0\<rparr> else b)"
    by (rule fst_bulletEnemies)
  show "map e_hp (fst (snd (bulletEnemies W H dpr b es g)))
      = map (\<lambda>e. e_hp e - (if onEnemy b e then 1 else 0)) es"
    by (rule hp_bulletEnemies)
  show "e_y (fst (snd (bulletEnemy W H dpr b e g)))
      = (if onEnemy b e \<and> e_hp e - 1 \<le> 0 then H + 100 else e_y e)"
    by (rule y_bulletEnemy)
  show "fst (shipEnemies H es g)
      = map (\<lambda>e. if hit (s_x (ship g)) (s_y (ship g)) (s_r (ship g)) (e_x e) (e_y e) (e_r e)
                  then e\<lparr>e_y := H + 100\<rparr> else e) es"
    by (rule fst_shipEnemies)
  show "fst (shipAsteroids H as g)
      = map (\<lambda>a. if hit (s_x (ship g)) (s_y (ship g)) (s_r (ship g) + 2) (a_x a) (a_y a) (a_r a)
                  then a\<lparr>a_y := H + 100\<rparr> else a) as"
    by (rule fst_shipAsteroids)
  show "fst (shipPowerups ps g)
      = map (\<lambda>p. if hit (s_x (ship g)) (s_y (ship g)) (s_r (ship g) + 4) (p_x p) (p_y p) (p_r p)
                  then p\<lparr>p_ttl := 0\<rparr> else p) ps"
    by (rule fst_shipPowerups)
  show "simulate W H dpr t dt (sweep H g) = simulate W H dpr t dt g" if "0 \<le> dt"
    using that by (rule simulate_sweep)
  show "loop W H dpr t (sweep H g) = loop W H dpr t g"
    if "running g \<and> 0 \<le> frame_dt (lastTime g) t"
    using that by (intro loop_sweep) simp_all
  show "\<not> hit x1 y1 r1 x2 y2 r2" if "H + 100 \<le> y2 \<and> y1 \<le> H \<and> \<bar>r1 + r2\<bar> < 100"
    using that by (intro marked_out_of_reach [of H y2 y1 r1 r2 x1 x2]) simp_all
qed

theorem bullet_pass_and_marks_witness:
  "fst (bulletEnemies 800 600 1
        \<lparr>b_x = 400, b_y = 111, b_vx = 0, b_vy = - 900, b_r = 4, b_ttl = 1.59, b_color = ''#00fff0''\<rparr>
        [\<lparr>e_x = 400, e_y = 101.2, e_vx = 0, e_vy = 120, e_r = 12, e_hp = 1, e_type = Drone\<rparr>,
         \<lparr>e_x = 405, e_y = 102.4, e_vx = 0, e_vy = 240, e_r = 12, e_hp = 1, e_type = Drone\<rparr>]
        debris)
     = \<lparr>b_x = 400, b_y = 111, b_vx = 0, b_vy = - 900, b_r = 4, b_ttl = 0, b_color = ''#00fff0''\<rparr>
   \<and> map e_hp (fst (snd (bulletEnemies 800 600 1
        \<lparr>b_x = 400, b_y = 111, b_vx = 0, b_vy = - 900, b_r = 4, b_ttl = 1.59, b_color = ''#00fff0''\<rparr>
        [\<lparr>e_x = 400, e_y = 101.2, e_vx = 0, e_vy = 120, e_r = 12, e_hp = 1, e_type = Drone\<rparr>,
         \<lparr>e_x = 405, e_y = 102.4, e_vx = 0, e_vy = 240, e_r = 12, e_hp = 1, e_type = Drone\<rparr>]
        debris))) = [0, 0]
   \<and> e_y (fst (snd (bulletEnemy 800 600 1
        \<lparr>b_x = 400, b_y = 111, b_vx = 0, b_vy = - 900, b_r = 4, b_ttl = 1.59, b_color = ''#00fff0''\<rparr>
        \<lparr>e_x = 400, e_y = 101.2, e_vx = 0, e_vy = 120, e_r = 12, e_hp = 1, e_type = Drone\<rparr>
        debris))) = 700
   \<and> map p_ttl (fst (shipPowerups (powerups debris) debris)) = [0]
   \<and> (0 :: real) \<le> 0.01 \<and> running debris \<and> 0 \<le> frame_dt (lastTime debris) 1120
   \<and> map b_ttl (bullets debris) = [0] \<and> bullets (sweep 600 debris) = []
   \<and> map e_y (enemies debris) = [700, 700, 50] \<and> map e_y (enemies (sweep 600 debris)) = [50]
   \<and> map a_y (asteroids debris) = [700] \<and> asteroids (sweep 600 debris) = []
   \<and> map p_ttl (powerups debris) = [0] \<and> powerups (sweep 600 debris) = []
   \<and> simulate 800 600 1 1120 0.01 (sweep 600 debris) = simulate 800 600 1 1120 0.01 debris
   \<and> bullets (loop 800 600 1 1120 debris) = []
   \<and> map e_y (enemies (loop 800 600 1 1120 debris)) = [51.5]
   \<and> asteroids (loop 800 600 1 1120 debris) = []
   \<and> powerups (loop 800 600 1 1120 debris) = []
   \<and> health (loop 800 600 1 1120 debris) = 85
   \<and> score (loop 800 600 1 1120 debris) = 125
   \<and> \<not> hit 400 494 14 400 700 12"
proof -
  let ?s = "debris\<lparr>bullets := [],
      enemies := [\<lparr>e_x = 300, e_y = 50, e_vx = 0, e_vy = 150, e_r = 15, e_hp = 1, e_type = Drone\<rparr>],
      asteroids := [], powerups := []\<rparr>"
  let ?g = "?s\<lparr>lastTime := Some 1120\<rparr>"
  let ?g2 = "?g\<lparr>timers := \<lparr>t_enemy = 0.28, t_asteroid = 0.38, t_power = 4.99, t_shoot = - 0.24\<rparr>\<rparr>"
  let ?g6 = "?g2\<lparr>enemies :=
      [\<lparr>e_x = 300, e_y = 51.5, e_vx = 0, e_vy = 150, e_r = 15, e_hp = 1, e_type = Drone\<rparr>]\<rparr>"
  let ?g9 = "?g6\<lparr>ship := \<lparr>s_x = 400, s_y = 494, s_r = 14, s_speed = 420, s_vx = 0, s_vy = 0,
      shieldT = 3.99, rapidT = 0\<rparr>\<rparr>"
  have sw: "sweep 600 debris = ?s"
    by (simp add: sweep_def debris_def)
  have dt: "frame_dt (lastTime ?s) 1120 = 0.01"
    by (simp add: frame_dt_def debris_def)
  have run: "running ?s" "\<not> health ?s \<le> 0"
    by (simp_all add: debris_def)
  have p1: "moveShip 800 600 1 0.01 ?g = ?g"
    by (simp add: moveShip_def movedShip_def hypot_or_1_def clamp_def debris_def)
  have p2: "tickTimers 0.01 ?g = ?g2"
    by (simp add: tickTimers_def debris_def)
  have p3: "shooting 1 ?g2 = ?g2"
    by (simp add: shooting_def debris_def)
  have p4: "spawning 800 600 1 ?g2 = ?g2"
    by (simp add: spawning_def debris_def)
  have p5: "updateBullets 0.01 ?g2 = ?g2"
    by (simp add: updateBullets_def agedBullets_def debris_def)
  have p6: "updateEnemies 1120 600 0.01 ?g2 = ?g6"
    by (simp add: updateEnemies_def moveEnemy_def debris_def)
  have p7: "updateAsteroids 600 0.01 ?g6 = ?g6"
    by (simp add: updateAsteroids_def debris_def)
  have p8: "updatePowerups 600 0.01 ?g6 = ?g6"
    by (simp add: updatePowerups_def debris_def)
  have p9: "decayEffects 0.01 ?g6 = ?g9"
    by (simp add: decayEffects_def debris_def)
  have p10: "collideBullets 800 600 1 ?g9 = ?g9"
    by (simp add: collideBullets_def debris_def)
  have p11: "collideShip 600 ?g9 = ?g9"
    by (simp add: collideShip_def hit_def debris_def power2_eq_square)
  have sim: "simulate 800 600 1 1120 0.01 ?g = ?g9"
    by (simp only: simulate_def Let_def p1 p2 p3 p4 p5 p6 p7 p8 p9 p10 p11)
  have lp: "loop 800 600 1 1120 (sweep 600 debris) = ?g9"
    unfolding sw using run by (simp only: loop_def dt Let_def sim if_False if_True simp_thms)
  have hyp: "(0 :: real) \<le> 0.01" "running debris" "0 \<le> frame_dt (lastTime debris) 1120"
    "600 + 100 \<le> (700 :: real) \<and> (494 :: real) \<le> 600 \<and> \<bar>14 + 12 :: real\<bar> < 100"
    by (simp_all add: debris_def frame_dt_def)
  note T = bullet_pass_and_marks [of 800 600 1
      "\<lparr>b_x = 400, b_y = 111, b_vx = 0, b_vy = - 900, b_r = 4, b_ttl = 1.59, b_color = ''#00fff0''\<rparr>"
      "[\<lparr>e_x = 400, e_y = 101.2, e_vx = 0, e_vy = 120, e_r = 12, e_hp = 1, e_type = Drone\<rparr>,
        \<lparr>e_x = 405, e_y = 102.4, e_vx = 0, e_vy = 240, e_r = 12, e_hp = 1, e_type = Drone\<rparr>]"
      debris
      "\<lparr>e_x = 400, e_y = 101.2, e_vx = 0, e_vy = 120, e_r = 12, e_hp = 1, e_type = Drone\<rparr>"
      "asteroids debris" "powerups debris" "0.01" 1120 700 494 14 12 400 400]
  have a: "fst (bulletEnemies 800 600 1
        \<lparr>b_x = 400, b_y = 111, b_vx = 0, b_vy = - 900, b_r = 4, b_ttl = 1.59, b_color = ''#00fff0''\<rparr>
        [\<lparr>e_x = 400, e_y = 101.2, e_vx = 0, e_vy = 120, e_r = 12, e_hp = 1, e_type = Drone\<rparr>,
         \<lparr>e_x = 405, e_y = 102.4, e_vx = 0, e_vy = 240, e_r = 12, e_hp = 1, e_type = Drone\<rparr>]
        debris)
     = \<lparr>b_x = 400, b_y = 111, b_vx = 0, b_vy = - 900, b_r = 4, b_ttl = 0, b_color = ''#00fff0''\<rparr>"
    using T by (simp add: hit_def power2_eq_square)
  have b: "map e_hp (fst (snd (bulletEnemies 800 600 1
        \<lparr>b_x = 400, b_y = 111, b_vx = 0, b_vy = - 900, b_r = 4, b_ttl = 1.59, b_color = ''#00fff0''\<rparr>
        [\<lparr>e_x = 400, e_y = 101.2, e_vx = 0, e_vy = 120, e_r = 12, e_hp = 1, e_type = Drone\<rparr>,
         \<lparr>e_x = 405, e_y = 102.4, e_vx = 0, e_vy = 240, e_r = 12, e_hp = 1, e_type = Drone\<rparr>]
        debris))) = [0, 0]"
    using T by (simp add: hit_def power2_eq_square)
  have c: "e_y (fst (snd (bulletEnemy 800 600 1
        \<lparr>b_x = 400, b_y = 111, b_vx = 0, b_vy = - 900, b_r = 4, b_ttl = 1.59, b_color = ''#00fff0''\<rparr>
        \<lparr>e_x = 400, e_y = 101.2, e_vx = 0, e_vy = 120, e_r = 12, e_hp = 1, e_type = Drone\<rparr>
        debris))) = 700"
    using T by (simp add: hit_def power2_eq_square)
  have d: "map p_ttl (fst (shipPowerups (powerups debris) debris)) = [0]"
    using T by (simp add: debris_def hit_def)
  have e: "simulate 800 600 1 1120 0.01 (sweep 600 debris) = simulate 800 600 1 1120 0.01 debris"
    using T hyp(1) by blast
  have f: "loop 800 600 1 1120 debris = ?g9"
    using T hyp(2,3) lp by simp
  have g: "\<not> hit 400 494 14 400 700 12"
    using T hyp(4) by blast
  have pools: "map b_ttl (bullets debris) = [0]" "map e_y (enemies debris) = [700, 700, 50]"
    "map a_y (asteroids debris) = [700]" "map p_ttl (powerups debris) = [0]"
    by (simp_all add: debris_def)
  have after: "bullets ?g9 = []" "map e_y (enemies ?g9) = [51.5]" "asteroids ?g9 = []"
    "powerups ?g9 = []" "health ?g9 = 85" "score ?g9 = 125"
    by (simp_all add: debris_def)
  have swept: "bullets (sweep 600 debris) = []" "map e_y (enemies (sweep 600 debris)) = [50]"
    "asteroids (sweep 600 debris) = []" "powerups (sweep 600 debris) = []"
    unfolding sw by simp_all
  show ?thesis
    unfolding f using a b c d e g hyp(1,2,3) pools after swept by blast
qed

text \<open>
  The claim as it was stated fails where a bullet overlaps two enemies: in the frame at
  timestamp 1110 the single bullet of \<open>crossfire\<close> takes the one hit point of each of the two
  drones, and the score goes from 0 to 100.
\<close>

theorem bullet_hits_two_counterexample:
  "map e_hp (enemies crossfire) = [1, 1]
   \<and> length (bullets crossfire) = 1
   \<and> score crossfire = 0
   \<and> map e_hp (enemies (loop 800 600 1 1110 crossfire)) = [0, 0]
   \<and> map e_y (enemies (loop 800 600 1 1110 crossfire)) = [700, 700]
   \<and> map b_ttl (bullets (loop 800 600 1 1110 crossfire)) = [0]
   \<and> score (loop 800 600 1 1110 crossfire) = 100
   \<and> sounds (loop 800 600 1 1110 crossfire) = [Boom, Boom]"
proof -
  let ?g = "crossfire\<lparr>lastTime := Some 1110\<rparr>"
  let ?g2 = "?g\<lparr>timers := \<lparr>t_enemy = 0.29, t_asteroid = 0.39, t_power = 3.89, t_shoot = - 0.23\<rparr>\<rparr>"
  let ?g5 = "?g2\<lparr>bullets := [\<lparr>b_x = 400, b_y = 111, b_vx = 0, b_vy = - 900, b_r = 4,
                b_ttl = 1.59, b_color = ''#00fff0''\<rparr>]\<rparr>"
  let ?g6 = "?g5\<lparr>enemies :=
               [\<lparr>e_x = 400, e_y = 101.2, e_vx = 0, e_vy = 120, e_r = 12, e_hp = 1, e_type = Drone\<rparr>,
                \<lparr>e_x = 405, e_y = 102.4, e_vx = 0, e_vy = 240, e_r = 12, e_hp = 1, e_type = Drone\<rparr>]\<rparr>"
  let ?g10 = "?g6\<lparr>score := 100, rngi := 2,
         bullets := [\<lparr>b_x = 400, b_y = 111, b_vx = 0, b_vy = - 900, b_r = 4,
                b_ttl = 0, b_color = ''#00fff0''\<rparr>],
         enemies := [\<lparr>e_x = 400, e_y = 700, e_vx = 0, e_vy = 120, e_r = 12, e_hp = 0, e_type = Drone\<rparr>,
                     \<lparr>e_x = 405, e_y = 700, e_vx = 0, e_vy = 240, e_r = 12, e_hp = 0, e_type = Drone\<rparr>],
         sounds := [Boom, Boom]\<rparr>"
  have dt: "frame_dt (lastTime crossfire) 1110 = 0.01"
    by (simp add: frame_dt_def crossfire_def)
  have run: "running crossfire" "\<not> health crossfire \<le> 0"
    by (simp_all add: crossfire_def)
  have p1: "moveShip 800 600 1 0.01 ?g = ?g"
    by (simp add: moveShip_def movedShip_def hypot_or_1_def clamp_def crossfire_def)
  have p2: "tickTimers 0.01 ?g = ?g2"
    by (simp add: tickTimers_def crossfire_def)
  have p3: "shooting 1 ?g2 = ?g2"
    by (simp add: shooting_def crossfire_def)
  have p4: "spawning 800 600 1 ?g2 = ?g2"
    by (simp add: spawning_def crossfire_def)
  have p5: "updateBullets 0.01 ?g2 = ?g5"
    by (simp add: updateBullets_def agedBullets_def crossfire_def)
  have p6: "updateEnemies 1110 600 0.01 ?g5 = ?g6"
    by (simp add: updateEnemies_def moveEnemy_def crossfire_def)
  have p7: "updateAsteroids 600 0.01 ?g6 = ?g6"
    by (simp add: updateAsteroids_def crossfire_def)
  have p8: "updatePowerups 600 0.01 ?g6 = ?g6"
    by (simp add: updatePowerups_def crossfire_def)
  have p9: "decayEffects 0.01 ?g6 = ?g6"
    by (simp add: decayEffects_def crossfire_def)
  have p10: "collideBullets 800 600 1 ?g6 = ?g10"
    by (simp add: collideBullets_def bulletEnemy_def hit_def play_def setScore_def random_def
          crossfire_def power2_eq_square)
  have p11: "collideShip 600 ?g10 = ?g10"
    by (simp add: collideShip_def hit_def crossfire_def)
  have sim: "simulate 800 600 1 1110 0.01 ?g = ?g10"
    by (simp only: simulate_def Let_def p1 p2 p3 p4 p5 p6 p7 p8 p9 p10 p11)
  have lp: "loop 800 600 1 1110 crossfire = ?g10"
    using run by (simp only: loop_def dt Let_def sim if_False if_True simp_thms)
  show ?thesis
    unfolding lp by (simp add: crossfire_def)
qed

subsection \<open>Elapsed time of a frame\<close>

text \<open>No part of a frame touches the recorded timestamp, which the loop sets to its own.\<close>

lemma lastTime_random [simp]: "lastTime (snd (random g)) = lastTime g"
  by (simp add: random_def)

lemma lastTime_rand [simp]: "lastTime (snd (rand mn mx g)) = lastTime g"
  by (simp add: rand_def random_def)

lemma lastTime_play [simp]: "lastTime (play s g) = lastTime g"
  by (simp add: play_def)

lemma lastTime_setScore [simp]: "lastTime (setScore f g) = lastTime g"
  by (simp add: setScore_def)

lemma lastTime_spawnBullet [simp]: "lastTime (spawnBullet dpr x y vx vy c g) = lastTime g"
  by (simp add: spawnBullet_def)

lemma lastTime_pickKind [simp]: "lastTime (snd (pickKind g)) = lastTime g"
  by (simp add: pickKind_def random_def)

lemma lastTime_spawnPowerUp [simp]: "lastTime (spawnPowerUp W dpr pos g) = lastTime g"
  by (cases pos) (simp_all add: spawnPowerUp_def split_def Let_def)

lemma lastTime_spawnEnemy [simp]: "lastTime (spawnEnemy W H dpr g) = lastTime g"
  by (simp add: spawnEnemy_def split_def Let_def)

lemma lastTime_spawnAsteroid [simp]: "lastTime (spawnAsteroid W H dpr g) = lastTime g"
  by (simp add: spawnAsteroid_def split_def Let_def)

lemma lastTime_spawnInterval [simp]: "lastTime (snd (spawnInterval mn mx g)) = lastTime g"
  by (simp add: spawnInterval_def split_def Let_def)

lemma lastTime_spawning [simp]: "lastTime (spawning W H dpr g) = lastTime g"
  by (simp add: spawning_def split_def Let_def)

lemma lastTime_moveShip [simp]: "lastTime (moveShip W H dpr dt g) = lastTime g"
  by (simp add: moveShip_def split_def Let_def)

lemma lastTime_tickTimers [simp]: "lastTime (tickTimers dt g) = lastTime g"
  by (simp add: tickTimers_def)

lemma lastTime_shooting [simp]: "lastTime (shooting dpr g) = lastTime g"
  by (simp add: shooting_def Let_def)

lemma lastTime_updates [simp]:
  "lastTime (updateBullets dt g) = lastTime g"
  "lastTime (updateEnemies t H dt g) = lastTime g"
  "lastTime (updateAsteroids H dt g) = lastTime g"
  "lastTime (updatePowerups H dt g) = lastTime g"
  "lastTime (decayEffects dt g) = lastTime g"
  by (simp_all add: updateBullets_def updateEnemies_def updateAsteroids_def updatePowerups_def
        decayEffects_def)

lemma lastTime_bulletEnemy [simp]: "lastTime (snd (snd (bulletEnemy W H dpr b e g))) = lastTime g"
  by (simp add: bulletEnemy_def split_def Let_def)

lemma lastTime_bulletEnemies [simp]: "lastTime (snd (snd (bulletEnemies W H dpr b es g))) = lastTime g"
  by (induction es arbitrary: b g) (simp_all add: split_def Let_def)

lemma lastTime_bulletsEnemies [simp]: "lastTime (snd (snd (bulletsEnemies W H dpr bs es g))) = lastTime g"
  by (induction bs arbitrary: es g) (simp_all add: split_def Let_def)

lemma lastTime_collideBullets [simp]: "lastTime (collideBullets W H dpr g) = lastTime g"
  by (simp add: collideBullets_def split_def Let_def)


lemma lastTime_damage [simp]: "lastTime (damage dmg g) = lastTime g"
  by (simp add: damage_def setHealth_def play_def)

lemma lastTime_applyPower [simp]: "lastTime (applyPower k g) = lastTime g"
  by (simp add: applyPower_def setHealth_def setScore_def play_def)

lemma lastTime_shipEnemies [simp]: "lastTime (snd (shipEnemies H es g)) = lastTime g"
  by (induction es arbitrary: g) (simp_all add: split_def Let_def)

lemma lastTime_shipAsteroids [simp]: "lastTime (snd (shipAsteroids H as g)) = lastTime g"
  by (induction as arbitrary: g) (simp_all add: split_def Let_def)

lemma lastTime_shipPowerups [simp]: "lastTime (snd (shipPowerups ps g)) = lastTime g"
  by (induction ps arbitrary: g) (simp_all add: split_def Let_def collect_def)

lemma lastTime_collideShip [simp]: "lastTime (collideShip H g) = lastTime g"
  by (simp add: collideShip_def split_def Let_def)

lemma lastTime_simulate [simp]: "lastTime (simulate W H dpr t dt g) = lastTime g"
  by (simp add: simulate_def Let_def)

lemma lastTime_loop: "lastTime (loop W H dpr t g) = Some t"
  by (simp add: loop_def Let_def)

text \<open>
  Claim C4. The elapsed time handed to the simulation is at most 0.032 seconds whatever
  the timestamps are; when the timestamp is not before the previous one it is also not
  negative and equals the smaller of 0.032 and the real elapsed time, so that a gap of
  32 milliseconds or more gives exactly 0.032. On the first frame, where no previous
  timestamp is recorded, it is 0. The previous timestamp of a frame is the timestamp of
  the call of the loop before it, running or paused.
\<close>

theorem frame_dt_clamped:
  "frame_dt None t = 0
   \<and> frame_dt lt t \<le> 0.032
   \<and> (p \<le> t \<longrightarrow> 0 \<le> frame_dt (Some p) t \<and> frame_dt (Some p) t \<le> 0.032
        \<and> frame_dt (Some p) t = min 0.032 ((t - p) / 1000))
   \<and> (p + 32 \<le> t \<longrightarrow> frame_dt (Some p) t = 0.032)
   \<and> frame_dt (lastTime (loop W H dpr p g)) t = frame_dt (Some p) t"
  by (auto simp add: frame_dt_def Let_def min_def lastTime_loop)

theorem frame_dt_clamped_witness:
  "(1000 :: real) \<le> 6000 \<and> (1000 :: real) + 32 \<le> 6000
   \<and> frame_dt None 6000 = 0
   \<and> 0 \<le> frame_dt (Some 1000) 6000 \<and> frame_dt (Some 1000) 6000 \<le> 0.032
   \<and> frame_dt (Some 1000) 6000 = 0.032
   \<and> frame_dt (lastTime (loop 800 600 1 1000 (initialGame (\<lambda>_. 0)))) 6000 = 0.032"
  using frame_dt_clamped [of 6000 "Some 1000" 1000 800 600 1 "initialGame (\<lambda>_. 0)"]
  by simp

subsection \<open>The move of the ship\<close>

lemma clamp_bounds: "lo \<le> hi \<Longrightarrow> lo \<le> clamp v lo hi \<and> clamp v lo hi \<le> hi"
  by (simp add: clamp_def)

lemma clamp_nonexpansive:
  "lo \<le> x0 \<Longrightarrow> x0 \<le> hi \<Longrightarrow> \<bar>clamp v lo hi - x0\<bar> \<le> \<bar>v - x0\<bar>"
  by (simp add: clamp_def max_def min_def)

lemma moved_distance:
  assumes "0 \<le> m"
  shows "sqrt ((dx * min 1 (m / hypot_or_1 dx dy))\<^sup>2 + (dy * min 1 (m / hypot_or_1 dx dy))\<^sup>2) \<le> m"
proof -
  let ?h = "sqrt (dx\<^sup>2 + dy\<^sup>2)"
  let ?s = "min 1 (m / hypot_or_1 dx dy)"
  have hn: "0 \<le> ?h" by simp
  have eq: "sqrt ((dx * ?s)\<^sup>2 + (dy * ?s)\<^sup>2) = \<bar>?s\<bar> * ?h"
  proof -
    have "(dx * ?s)\<^sup>2 + (dy * ?s)\<^sup>2 = ?s\<^sup>2 * (dx\<^sup>2 + dy\<^sup>2)"
      by (simp add: power_mult_distrib algebra_simps)
    then show ?thesis by (simp add: real_sqrt_mult)
  qed
  show ?thesis
  proof (cases "?h = 0")
    case True
    then show ?thesis using eq assms by simp
  next
    case False
    then have hp: "0 < ?h" using hn by linarith
    have d: "hypot_or_1 dx dy = ?h" using False by (simp add: hypot_or_1_def Let_def)
    have s0: "0 \<le> ?s" using assms hp d by simp
    have "?s \<le> m / ?h" by (simp only: d min.cobounded2)
    then have "?s * ?h \<le> (m / ?h) * ?h"
      using hn by (rule mult_right_mono)
    also have "\<dots> = m"
    proof -
      have "k \<noteq> 0 \<Longrightarrow> m / k * k = m" for k :: real by simp
      then show ?thesis using False by blast
    qed
    finally show ?thesis using eq s0 by simp
  qed
qed

lemma sqrt_sum_squares_mono:
  "\<bar>a\<bar> \<le> \<bar>c\<bar> \<Longrightarrow> \<bar>b\<bar> \<le> \<bar>d\<bar> \<Longrightarrow> sqrt (a\<^sup>2 + b\<^sup>2) \<le> sqrt (c\<^sup>2 + d\<^sup>2)"
proof -
  assume "\<bar>a\<bar> \<le> \<bar>c\<bar>" "\<bar>b\<bar> \<le> \<bar>d\<bar>"
  then have "a\<^sup>2 \<le> c\<^sup>2" "b\<^sup>2 \<le> d\<^sup>2" by (simp_all add: abs_le_square_iff)
  then show ?thesis by simp
qed

text \<open>
  Claim C5, as amended. For every elapsed time \<open>dt \<ge> 0\<close>, every target, a ship speed and a
  pixel ratio that are not negative, and every canvas of width \<open>W \<ge> 40 * dpr\<close> and height
  \<open>H \<ge> 40 * dpr\<close>: after the move step the ship lies within the margins, its move toward
  the target before clamping is at most \<open>speed * dt * dpr\<close> long, and when the ship starts
  within the margins the whole move, clamping included, is at most \<open>speed * dt * dpr\<close> long.
\<close>

theorem moveShip_within_margins:
  assumes "0 \<le> dt" and "0 \<le> dpr" and "0 \<le> s_speed (ship g)"
    and "40 * dpr \<le> W" and "40 * dpr \<le> H"
  shows "20 * dpr \<le> s_x (ship (moveShip W H dpr dt g))
    \<and> s_x (ship (moveShip W H dpr dt g)) \<le> W - 20 * dpr
    \<and> 20 * dpr \<le> s_y (ship (moveShip W H dpr dt g))
    \<and> s_y (ship (moveShip W H dpr dt g)) \<le> H - 20 * dpr
    \<and> sqrt ((fst (movedShip dpr dt g) - s_x (ship g))\<^sup>2
            + (snd (movedShip dpr dt g) - s_y (ship g))\<^sup>2) \<le> s_speed (ship g) * dt * dpr
    \<and> (20 * dpr \<le> s_x (ship g) \<and> s_x (ship g) \<le> W - 20 * dpr
        \<and> 20 * dpr \<le> s_y (ship g) \<and> s_y (ship g) \<le> H - 20 * dpr \<longrightarrow>
          sqrt ((s_x (ship (moveShip W H dpr dt g)) - s_x (ship g))\<^sup>2
              + (s_y (ship (moveShip W H dpr dt g)) - s_y (ship g))\<^sup>2)
            \<le> s_speed (ship g) * dt * dpr)"
proof -
  let ?x1 = "fst (movedShip dpr dt g)" and ?y1 = "snd (movedShip dpr dt g)"
  let ?m = "s_speed (ship g) * dt * dpr"
  have sx: "s_x (ship (moveShip W H dpr dt g)) = clamp ?x1 (20 * dpr) (W - 20 * dpr)"
    and sy: "s_y (ship (moveShip W H dpr dt g)) = clamp ?y1 (20 * dpr) (H - 20 * dpr)"
    by (simp_all add: moveShip_def split_def Let_def)
  have lx: "20 * dpr \<le> W - 20 * dpr" and ly: "20 * dpr \<le> H - 20 * dpr"
    using assms by simp_all
  have m0: "0 \<le> ?m" using assms by simp
  have free: "sqrt ((?x1 - s_x (ship g))\<^sup>2 + (?y1 - s_y (ship g))\<^sup>2) \<le> ?m"
    using moved_distance [OF m0, of "target_x (inp g) * dpr - s_x (ship g)"
        "target_y (inp g) * dpr - s_y (ship g)"]
    by (simp add: movedShip_def Let_def)
  have inside: "sqrt ((s_x (ship (moveShip W H dpr dt g)) - s_x (ship g))\<^sup>2
              + (s_y (ship (moveShip W H dpr dt g)) - s_y (ship g))\<^sup>2) \<le> ?m"
    if "20 * dpr \<le> s_x (ship g)" "s_x (ship g) \<le> W - 20 * dpr"
       "20 * dpr \<le> s_y (ship g)" "s_y (ship g) \<le> H - 20 * dpr"
  proof -
    have "sqrt ((clamp ?x1 (20 * dpr) (W - 20 * dpr) - s_x (ship g))\<^sup>2
              + (clamp ?y1 (20 * dpr) (H - 20 * dpr) - s_y (ship g))\<^sup>2)
          \<le> sqrt ((?x1 - s_x (ship g))\<^sup>2 + (?y1 - s_y (ship g))\<^sup>2)"
      using that by (intro sqrt_sum_squares_mono clamp_nonexpansive)
    then show ?thesis using free by (simp only: sx sy)
  qed
  show ?thesis
    using clamp_bounds [OF lx, of ?x1] clamp_bounds [OF ly, of ?y1] free inside
    by (simp only: sx sy) blast
qed

theorem moveShip_within_margins_witness:
  "(0 :: real) \<le> 0.016 \<and> (0 :: real) \<le> 1
   \<and> 0 \<le> s_speed (ship ((initialGame (\<lambda>_. 0))\<lparr>inp := \<lparr>pointerDown = True, target_x = 500, target_y = 300\<rparr>\<rparr>))
   \<and> 40 * 1 \<le> (800 :: real) \<and> 40 * 1 \<le> (600 :: real)
   \<and> s_x (ship ((initialGame (\<lambda>_. 0))\<lparr>inp := \<lparr>pointerDown = True, target_x = 500, target_y = 300\<rparr>\<rparr>)) = 200
   \<and> s_y (ship ((initialGame (\<lambda>_. 0))\<lparr>inp := \<lparr>pointerDown = True, target_x = 500, target_y = 300\<rparr>\<rparr>)) = 300
   \<and> s_x (ship (moveShip 800 600 1 0.016
        ((initialGame (\<lambda>_. 0))\<lparr>inp := \<lparr>pointerDown = True, target_x = 500, target_y = 300\<rparr>\<rparr>))) = 206.72
   \<and> s_y (ship (moveShip 800 600 1 0.016
        ((initialGame (\<lambda>_. 0))\<lparr>inp := \<lparr>pointerDown = True, target_x = 500, target_y = 300\<rparr>\<rparr>))) = 300
   \<and> sqrt ((206.72 - 200)\<^sup>2 + (300 - 300)\<^sup>2) \<le> (420 * 0.016 * 1 :: real)"
  using moveShip_within_margins [of "0.016" 1
      "(initialGame (\<lambda>_. 0))\<lparr>inp := \<lparr>pointerDown = True, target_x = 500, target_y = 300\<rparr>\<rparr>" 800 600]
  by (simp add: moveShip_def movedShip_def hypot_or_1_def clamp_def initialGame_def
        initialShip_def Let_def)

text \<open>
  The claim as it was stated fails where the ship starts outside the margins: on a canvas
  150 pixels wide the freshly mounted ship, at 200, is clamped to 130 within one frame of
  0.016 seconds, a move of 70 where \<open>speed * dt * dpr\<close> is 6.72.
\<close>

theorem moveShip_distance_counterexample:
  "(0::real) \<le> 0.016 \<and> 40 * 1 \<le> (150::real) \<and> 40 * 1 \<le> (600::real)
   \<and> s_x (ship (initialGame (\<lambda>_. 0))) = 200
   \<and> s_x (ship (moveShip 150 600 1 0.016 (initialGame (\<lambda>_. 0)))) = 130
   \<and> \<not> sqrt ((s_x (ship (moveShip 150 600 1 0.016 (initialGame (\<lambda>_. 0))))
                 - s_x (ship (initialGame (\<lambda>_. 0))))\<^sup>2
              + (s_y (ship (moveShip 150 600 1 0.016 (initialGame (\<lambda>_. 0))))
                 - s_y (ship (initialGame (\<lambda>_. 0))))\<^sup>2)
        \<le> s_speed (ship (initialGame (\<lambda>_. 0))) * 0.016 * 1"
proof -
  have x: "s_x (ship (moveShip 150 600 1 0.016 (initialGame (\<lambda>_. 0)))) = 130"
    and y: "s_y (ship (moveShip 150 600 1 0.016 (initialGame (\<lambda>_. 0)))) = 300"
    by (simp_all add: moveShip_def movedShip_def hypot_or_1_def clamp_def initialGame_def
          initialShip_def Let_def)
  have i: "s_x (ship (initialGame (\<lambda>_. 0))) = 200" "s_y (ship (initialGame (\<lambda>_. 0))) = 300"
    "s_speed (ship (initialGame (\<lambda>_. 0))) = 420"
    by (simp_all add: initialGame_def initialShip_def)
  have "sqrt ((130 - 200)\<^sup>2 + (300 - 300)\<^sup>2) = (70::real)" by simp
  then show ?thesis unfolding x y i by simp
qed

subsection \<open>The kind of a powerup\<close>








subsection \<open>Circle overlap\<close>

text \<open>
  Claim C7. The overlap test \<open>hit\<close> holds exactly when the squared distance of the centres
  is at most the squared sum of the radii; two circles whose centres are exactly the sum
  of the radii apart do overlap; and the test is symmetric in the two circles.
\<close>

theorem hit_inclusive_symmetric:
  "(hit x1 y1 r1 x2 y2 r2 \<longleftrightarrow> (x1 - x2)\<^sup>2 + (y1 - y2)\<^sup>2 \<le> (r1 + r2)\<^sup>2)
   \<and> hit x1 y1 r1 (x1 + (r1 + r2)) y1 r2
   \<and> hit x1 y1 r1 x2 y2 r2 = hit x2 y2 r2 x1 y1 r1"
  by (simp add: hit_def power2_commute add.commute)

subsection \<open>Difficulty, level and spawn intervals\<close>






subsection \<open>Restart\<close>

text \<open>
  Claim C9. After \<open>restart\<close>, whatever the state was: the score is 0, health is 100, the
  pools of bullets, enemies, asteroids and powerups are empty, the game-over flag is
  false, the running flag is true, and the shield and rapid-fire timers of the ship are 0.
\<close>

theorem restart_resets:
  "score (restart g) = 0 \<and> health (restart g) = 100
   \<and> bullets (restart g) = [] \<and> enemies (restart g) = []
   \<and> asteroids (restart g) = [] \<and> powerups (restart g) = []
   \<and> gameOver (restart g) = False \<and> running (restart g) = True
   \<and> shieldT (ship (restart g)) = 0 \<and> rapidT (ship (restart g)) = 0"
  by (simp add: restart_def initialShip_def)

subsection \<open>Collecting a powerup\<close>


end
